theory Spec2Isabelle
  imports Complex_Main "HOL-Library.Word"
begin

unbundle bit_operations_syntax

section \<open>Errors\<close>

text \<open>
  Every exception the modelled code can raise is a value. \<open>PixelsError\<close> carries
  the message of the raise statement, since the two quality checks of
  \<open>Reach._extract_action_labels\<close> raise the same class with different messages.
\<close>

datatype error =
    PixelsError string
  | KeyError
  | ValueError
  | IndexError
  | NameError
  | AttributeError

section \<open>\<open>pixels/behaviours/reach.py\<close>\<close>

subsection \<open>The constants \<open>ActionLabels\<close> and \<open>Events\<close>\<close>

text \<open>Python integers are unbounded: \<open>1 << k\<close> is \<open>push_bit k 1\<close> on \<open>int\<close>.\<close>

definition miss_left :: int where "miss_left = push_bit 0 1"
definition miss_right :: int where "miss_right = push_bit 1 1"
definition correct_left :: int where "correct_left = push_bit 2 1"
definition correct_right :: int where "correct_right = push_bit 3 1"
definition incorrect_left :: int where "incorrect_left = push_bit 4 1"
definition incorrect_right :: int where "incorrect_right = push_bit 5 1"
definition naive_left_short :: int where "naive_left_short = push_bit 6 1"
definition naive_left_long :: int where "naive_left_long = push_bit 7 1"
definition naive_right_short :: int where "naive_right_short = push_bit 8 1"
definition naive_right_long :: int where "naive_right_long = push_bit 9 1"
definition naive_left :: int where "naive_left = naive_left_short OR naive_left_long"
definition naive_right :: int where "naive_right = naive_right_short OR naive_right_long"
definition naive_short :: int where "naive_short = naive_left_short OR naive_right_short"
definition naive_long :: int where "naive_long = naive_left_long OR naive_right_long"

text \<open>
  The attributes of the class \<open>ActionLabels\<close>, by name: \<open>getattr(ActionLabels, s)\<close>
  is a lookup in this table and raises \<open>AttributeError\<close> for any other name.
\<close>

definition ActionLabels :: "(string \<times> int) list" where
  "ActionLabels =
    [(''miss_left'', miss_left), (''miss_right'', miss_right),
     (''correct_left'', correct_left), (''correct_right'', correct_right),
     (''incorrect_left'', incorrect_left), (''incorrect_right'', incorrect_right),
     (''naive_left_short'', naive_left_short), (''naive_left_long'', naive_left_long),
     (''naive_right_short'', naive_right_short), (''naive_right_long'', naive_right_long),
     (''naive_left'', naive_left), (''naive_right'', naive_right),
     (''naive_short'', naive_short), (''naive_long'', naive_long)]"

definition getattr_ActionLabels :: "string \<Rightarrow> error + int" where
  "getattr_ActionLabels s =
    (case map_of ActionLabels s of None \<Rightarrow> Inl AttributeError | Some v \<Rightarrow> Inr v)"

definition led_on :: int where "led_on = 1"
definition led_off :: int where "led_off = 2"

subsection \<open>Trial metadata\<close>

text \<open>
  \<open>Targets\<close> and \<open>Outcomes\<close> come from the package \<open>reach.session\<close>. A trial's
  \<open>spout\<close> and \<open>outcome\<close> are values read from JSON; the last constructor of each
  type stands for any value that is not a key of \<open>_side_map\<close> or \<open>_action_map\<close>.
\<close>

datatype target = LEFT | RIGHT | OtherTarget
datatype outcome = MISSED | CORRECT | INCORRECT | OtherOutcome

record trial =
  spout :: target
  outcome :: outcome
  cue_duration :: real

record metadata =
  trials :: "trial list"

text \<open>The attributes of \<open>self\<close> that \<open>_extract_action_labels\<close> reads.\<close>

record reach =
  name :: string
  metadata :: metadata

text \<open>The dictionaries \<open>_side_map\<close> and \<open>_action_map\<close>.\<close>

fun side_map :: "target \<Rightarrow> string option" where
  "side_map LEFT = Some ''left''"
| "side_map RIGHT = Some ''right''"
| "side_map OtherTarget = None"

fun action_map :: "outcome \<Rightarrow> string option" where
  "action_map MISSED = Some ''miss''"
| "action_map CORRECT = Some ''correct''"
| "action_map INCORRECT = Some ''incorrect''"
| "action_map OtherOutcome = None"

subsection \<open>Data frames and arrays\<close>

text \<open>
  A pandas data frame: an index of \<open>index_len\<close> rows and named columns. A column is a
  series, one sample for each row position \<open>0..<index_len\<close>, so that every column has
  the length of the frame, as in pandas. Samples are modelled as real numbers; the
  rounding of float64 arithmetic is not modelled.
\<close>

record dataframe =
  index_len :: nat
  columns :: "string \<Rightarrow> (nat \<Rightarrow> real) option"

text \<open>
  The column keys, such as \<^verbatim>\<open>/'ReachLEDs'/'0'\<close>: a group name and a channel name, each
  between apostrophes (character \<open>0x27\<close>) after a slash.
\<close>

definition channel_key :: "string \<Rightarrow> string \<Rightarrow> string" where
  "channel_key g c = ''/'' @ [CHR 0x27] @ g @ [CHR 0x27] @ ''/'' @ [CHR 0x27] @ c @ [CHR 0x27]"

definition ReachLEDs :: string where "ReachLEDs = channel_key ''ReachLEDs'' ''0''"
definition NpxlSync_Signal :: string where "NpxlSync_Signal = channel_key ''NpxlSync_Signal'' ''0''"
definition Back_Sensor :: string where "Back_Sensor = channel_key ''Back_Sensor'' ''0''"

definition getitem :: "dataframe \<Rightarrow> string \<Rightarrow> error + (nat \<Rightarrow> real)" where
  "getitem df key = (case columns df key of None \<Rightarrow> Inl KeyError | Some s \<Rightarrow> Inr s)"

definition setitem :: "dataframe \<Rightarrow> string \<Rightarrow> (nat \<Rightarrow> real) \<Rightarrow> dataframe" where
  "setitem df key s = df\<lparr>columns := (columns df)(key \<mapsto> s)\<rparr>"

definition values_of :: "dataframe \<Rightarrow> (nat \<Rightarrow> real) \<Rightarrow> real list" where
  "values_of df s = map s [0..<index_len df]"

text \<open>
  \<open>Series.min()\<close>: the least sample; of an empty series it is NaN, here \<open>None\<close>, and
  every comparison with NaN is false.
\<close>

fun series_min :: "real list \<Rightarrow> real option" where
  "series_min [] = None"
| "series_min (x # xs) = Some (fold min xs x)"

definition min_below :: "real list \<Rightarrow> real \<Rightarrow> bool" where
  "min_below xs b = (case series_min xs of None \<Rightarrow> False | Some m \<Rightarrow> m < b)"

text \<open>
  Lines 66 to 68: the correction for sessions where the sync channel interfered with
  the LED channel. The result is the table handed to \<open>signal.binarise\<close>.
\<close>

definition correct_leds :: "dataframe \<Rightarrow> error + dataframe" where
  "correct_leds behavioural_data =
    (case getitem behavioural_data ReachLEDs of
       Inl e \<Rightarrow> Inl e
     | Inr led \<Rightarrow>
        if min_below (values_of behavioural_data led) (- 2) then
          (case getitem behavioural_data NpxlSync_Signal of
             Inl e \<Rightarrow> Inl e
           | Inr sync \<Rightarrow>
               Inr (setitem behavioural_data ReachLEDs (\<lambda>i. led i + 0.5 * sync i)))
        else Inr behavioural_data)"

text \<open>Lines 73 to 77: the LED trace of the binarised table, with the fallback key.\<close>

definition read_cue_leds :: "dataframe \<Rightarrow> error + real list" where
  "read_cue_leds df =
    (case getitem df ReachLEDs of
       Inr s \<Rightarrow> Inr (values_of df s)
     | Inl e \<Rightarrow>
        (case getitem df Back_Sensor of
           Inr s \<Rightarrow> Inr (values_of df s)
         | Inl e' \<Rightarrow> Inl e'))"

text \<open>
  \<open>np.where(bs)[0]\<close>: the positions at which a boolean array is true, ascending.
\<close>

definition np_where :: "bool list \<Rightarrow> nat list" where
  "np_where bs = filter (\<lambda>i. bs ! i) [0..<length bs]"

text \<open>Lines 79 and 80; \<open>c[:-1]\<close> is \<open>butlast c\<close> and \<open>c[1:]\<close> is \<open>tl c\<close>.\<close>

definition led_onsets :: "real list \<Rightarrow> nat list" where
  "led_onsets cue_leds =
    np_where (map2 (\<and>) (map (\<lambda>x. x = 0) (butlast cue_leds)) (map (\<lambda>x. x = 1) (tl cue_leds)))"

definition led_offsets :: "real list \<Rightarrow> nat list" where
  "led_offsets cue_leds =
    np_where (map2 (\<and>) (map (\<lambda>x. x = 1) (butlast cue_leds)) (map (\<lambda>x. x = 0) (tl cue_leds)))"

text \<open>
  \<open>np.zeros((n, 2))\<close> as a list of \<open>n\<close> rows. The entries written are small integers,
  which float64 holds exactly, so entries are modelled as \<open>int\<close>.
\<close>

definition np_zeros :: "nat \<Rightarrow> nat \<Rightarrow> int list list" where
  "np_zeros n m = replicate n (replicate m 0)"

text \<open>\<open>a[i, j] = v\<close>; numpy raises \<open>IndexError\<close> out of range.\<close>

definition set_entry :: "int list list \<Rightarrow> nat \<Rightarrow> nat \<Rightarrow> int \<Rightarrow> error + int list list" where
  "set_entry a i j v =
    (if i < length a \<and> j < length (a ! i) then Inr (a[i := (a ! i)[j := v]])
     else Inl IndexError)"

text \<open>\<open>a[idx, j] = v\<close> for an index array \<open>idx\<close>.\<close>

fun set_entries :: "int list list \<Rightarrow> nat list \<Rightarrow> nat \<Rightarrow> int \<Rightarrow> error + int list list" where
  "set_entries a [] j v = Inr a"
| "set_entries a (i # idx) j v =
    (case set_entry a i j v of Inl e \<Rightarrow> Inl e | Inr a' \<Rightarrow> set_entries a' idx j v)"

text \<open>
  \<open>led_offsets - led_onsets\<close> on one-dimensional arrays: elementwise when the lengths
  agree, an array of length one is broadcast, any other pair of lengths raises
  \<open>ValueError\<close>.
\<close>

definition np_subtract :: "int list \<Rightarrow> int list \<Rightarrow> error + int list" where
  "np_subtract a b =
    (if length a = length b then Inr (map2 (-) a b)
     else if length b = 1 then Inr (map (\<lambda>x. x - hd b) a)
     else if length a = 1 then Inr (map (\<lambda>y. hd a - y) b)
     else Inl ValueError)"

text \<open>
  \<open>np.argsort\<close> returns the positions of an array in ascending order of their values
  and leaves the order of equal values to its sorting routine. It is a parameter: one
  function for the integer array \<open>cue_durations_tdms\<close> and one for the float array
  made of the list \<open>cue_durations_json\<close>.
\<close>

record numpy =
  argsort_int :: "int list \<Rightarrow> nat list"
  argsort_float :: "real list \<Rightarrow> nat list"

text \<open>
  What numpy documents of the result \<open>p\<close> of \<open>np.argsort(xs)\<close>: a permutation of the
  positions of \<open>xs\<close> that lists the values in ascending order.
\<close>

definition is_argsort :: "('a :: linorder) list \<Rightarrow> nat list \<Rightarrow> bool" where
  "is_argsort xs p =
    (distinct p \<and> set p = set [0..<length xs] \<and> sorted (map (\<lambda>i. xs ! i) p))"

subsection \<open>\<open>Reach._extract_action_labels\<close>\<close>

definition trial_count_message :: "string \<Rightarrow> string" where
  "trial_count_message n =
    n @ '': Mantis and Raspberry Pi behavioural data have different no. of trials''"

definition trial_data_message :: "string \<Rightarrow> string" where
  "trial_data_message n =
    n @ '': Mantis and Raspberry Pi behavioural data have mismatching trial data.''"

text \<open>
  Lines 101 to 103 for one trial: the value of
  \<open>getattr(ActionLabels, f"{action}_{side}")\<close>.
\<close>

definition trial_label :: "trial \<Rightarrow> error + int" where
  "trial_label t =
    (case side_map (spout t) of
       None \<Rightarrow> Inl KeyError
     | Some side \<Rightarrow>
        (case action_map (outcome t) of
           None \<Rightarrow> Inl KeyError
         | Some action \<Rightarrow> getattr_ActionLabels (action @ ''_'' @ side)))"

text \<open>
  The loop of lines 100 to 103, from trial number \<open>i\<close> on. The right-hand side of the
  assignment is evaluated before \<open>led_onsets[i]\<close>.
\<close>

fun write_trials :: "nat list \<Rightarrow> int list list \<Rightarrow> nat \<Rightarrow> trial list \<Rightarrow> error + int list list" where
  "write_trials onsets a i [] = Inr a"
| "write_trials onsets a i (t # ts) =
    (case trial_label t of
       Inl e \<Rightarrow> Inl e
     | Inr v \<Rightarrow>
        if i < length onsets then
          (case set_entry a (onsets ! i) 0 v of
             Inl e \<Rightarrow> Inl e
           | Inr a' \<Rightarrow> write_trials onsets a' (Suc i) ts)
        else Inl IndexError)"

text \<open>
  Lines 84 to 116, on the array \<open>action_labels\<close> that holds the event codes. With
  \<open>plot\<close> set, line 108 reads the name \<open>back_sensor_signal\<close>, which is bound
  nowhere, and raises \<open>NameError\<close>.
\<close>

definition check_and_write ::
  "numpy \<Rightarrow> reach \<Rightarrow> int list list \<Rightarrow> real list \<Rightarrow> bool \<Rightarrow> error + int list list" where
  "check_and_write np self action_labels cue_leds plot =
    (if length (led_onsets cue_leds) \<noteq> length (trials (metadata self)) then
       Inl (PixelsError (trial_count_message (name self)))
     else
     (case np_subtract (map int (led_offsets cue_leds)) (map int (led_onsets cue_leds)) of
        Inl e \<Rightarrow> Inl e
      | Inr cue_durations_tdms \<Rightarrow>
     if argsort_int np cue_durations_tdms
          \<noteq> argsort_float np (map cue_duration (trials (metadata self))) then
       Inl (PixelsError (trial_data_message (name self)))
     else
     (case write_trials (led_onsets cue_leds) action_labels 0 (trials (metadata self)) of
        Inl e \<Rightarrow> Inl e
      | Inr labelled \<Rightarrow> if plot then Inl NameError else Inr labelled)))"

text \<open>
  Lines 79 to 116, on the LED trace \<open>cue_leds\<close> of the binarised table and the array
  \<open>action_labels\<close> of zeros: the event codes are written first.
\<close>

definition label_samples ::
  "numpy \<Rightarrow> reach \<Rightarrow> int list list \<Rightarrow> real list \<Rightarrow> bool \<Rightarrow> error + int list list" where
  "label_samples np self action_labels cue_leds plot =
    (case set_entries action_labels (led_onsets cue_leds) 1 led_on of
       Inl e \<Rightarrow> Inl e
     | Inr a1 \<Rightarrow>
        (case set_entries a1 (led_offsets cue_leds) 1 led_off of
           Inl e \<Rightarrow> Inl e
         | Inr a2 \<Rightarrow> check_and_write np self a2 cue_leds plot))"

text \<open>
  The whole method. \<open>signal.binarise\<close> is defined outside the files at hand and is a
  parameter: any function from tables to tables. So is numpy's \<open>argsort\<close>.
\<close>

definition extract_action_labels ::
  "(dataframe \<Rightarrow> dataframe) \<Rightarrow> numpy \<Rightarrow> reach \<Rightarrow> dataframe \<Rightarrow> bool \<Rightarrow> error + int list list" where
  "extract_action_labels binarise np self behavioural_data plot =
    (case correct_leds behavioural_data of
       Inl e \<Rightarrow> Inl e
     | Inr corrected \<Rightarrow>
        (case read_cue_leds (binarise corrected) of
           Inl e \<Rightarrow> Inl e
         | Inr cue_leds \<Rightarrow>
             label_samples np self (np_zeros (index_len (binarise corrected)) 2) cue_leds plot))"

text \<open>
  The specification's reading of the bitmask a trial selects: the constant named by the outcome
  and the side, for the three outcomes and two sides that have one. It is compared with
  \<open>trial_label\<close>, which follows the source.
\<close>

fun selected_bitmask :: "target \<Rightarrow> outcome \<Rightarrow> int option" where
  "selected_bitmask LEFT MISSED = Some miss_left"
| "selected_bitmask RIGHT MISSED = Some miss_right"
| "selected_bitmask LEFT CORRECT = Some correct_left"
| "selected_bitmask RIGHT CORRECT = Some correct_right"
| "selected_bitmask LEFT INCORRECT = Some incorrect_left"
| "selected_bitmask RIGHT INCORRECT = Some incorrect_right"
| "selected_bitmask _ _ = None"

section \<open>\<open>pixels/experiment.py\<close>\<close>

subsection \<open>Construction\<close>

text \<open>
  The file system and \<open>pathlib\<close> as \<open>__init__\<close> sees them: \<open>Path(p).expanduser()\<close>,
  \<open>Path.exists()\<close> and \<open>p / 'raw'\<close>, which appends a component and normalises the
  result. Paths are strings.
\<close>

record filesystem =
  expanduser :: "string \<Rightarrow> string"
  exists :: "string \<Rightarrow> bool"
  joinpath :: "string \<Rightarrow> string \<Rightarrow> string"

text \<open>One entry of what \<open>ioutils.get_sessions\<close> yields: the keys \<open>name\<close>, \<open>metadata\<close>, \<open>data_dir\<close>.\<close>

record 'm session_info =
  info_name :: string
  info_metadata :: 'm
  info_data_dir :: string

text \<open>The argument \<open>mouse_ids\<close>: one id, or a list, tuple or set of ids.\<close>

datatype mouse_ids_arg = One string | Many "string list"

fun as_list :: "mouse_ids_arg \<Rightarrow> string list" where
  "as_list (One m) = [m]"
| "as_list (Many ms) = ms"

text \<open>
  The attributes \<open>__init__\<close> binds. The class \<open>behaviour\<close> is its constructor, called as
  \<open>behaviour(name, metadata=..., data_dir=...)\<close>; it is defined outside the files at
  hand and may raise.
\<close>

record ('m, 's) Experiment =
  behaviour :: "string \<Rightarrow> 'm \<Rightarrow> string \<Rightarrow> error + 's"
  mouse_ids :: "string list"
  data_dir :: string
  meta_dir :: "string option"
  raw :: string
  processed :: string
  interim :: string
  sessions :: "'s list"

text \<open>The loop of lines 60 to 67, appending to \<open>self.sessions\<close>.\<close>

fun append_sessions ::
  "(string \<Rightarrow> 'm \<Rightarrow> string \<Rightarrow> error + 's) \<Rightarrow> 'm session_info list \<Rightarrow> 's list \<Rightarrow> error + 's list" where
  "append_sessions cls [] acc = Inr acc"
| "append_sessions cls (session # found) acc =
    (case cls (info_name session) (info_metadata session) (info_data_dir session) of
       Inl e \<Rightarrow> Inl e
     | Inr s \<Rightarrow> append_sessions cls found (acc @ [s]))"

text \<open>
  Lines 47 to 52. \<open>if meta_dir:\<close> is false for \<open>None\<close> and for the empty string.
\<close>

definition check_meta_dir :: "filesystem \<Rightarrow> string option \<Rightarrow> error + string option" where
  "check_meta_dir fs m =
    (case m of
       None \<Rightarrow> Inr None
     | Some d \<Rightarrow>
        if d = [] then Inr None
        else if \<not> exists fs (expanduser fs d) then
          Inl (PixelsError (''Directory not found: '' @ d))
        else Inr (Some (expanduser fs d)))"

text \<open>
  \<open>Experiment.__init__\<close>. \<open>ioutils.get_sessions\<close> is defined outside the files at hand
  and is a parameter, which may raise.
\<close>

definition Experiment_init ::
  "filesystem \<Rightarrow> (string list \<Rightarrow> string \<Rightarrow> string option \<Rightarrow> error + 'm session_info list)
    \<Rightarrow> mouse_ids_arg \<Rightarrow> (string \<Rightarrow> 'm \<Rightarrow> string \<Rightarrow> error + 's) \<Rightarrow> string \<Rightarrow> string option
    \<Rightarrow> error + ('m, 's) Experiment" where
  "Experiment_init fs get_sessions ids cls d m =
    (if \<not> exists fs (expanduser fs d) then
       Inl (PixelsError (''Directory not found: '' @ d))
     else
       (case check_meta_dir fs m of
          Inl e \<Rightarrow> Inl e
        | Inr md \<Rightarrow>
           (case get_sessions (as_list ids) (expanduser fs d) md of
              Inl e \<Rightarrow> Inl e
            | Inr found \<Rightarrow>
               (case append_sessions cls found [] of
                  Inl e \<Rightarrow> Inl e
                | Inr ss \<Rightarrow>
                    Inr \<lparr>behaviour = cls, mouse_ids = as_list ids,
                         data_dir = expanduser fs d, meta_dir = md,
                         raw = joinpath fs (expanduser fs d) ''raw'',
                         processed = joinpath fs (expanduser fs d) ''processed'',
                         interim = joinpath fs (expanduser fs d) ''interim'',
                         sessions = ss\<rparr>))))"

text \<open>
  \<open>__getitem__\<close> with an integer index: a negative index counts from the end, and an
  index outside the list raises \<open>IndexError\<close>. \<open>__len__\<close> is the length of the list.
\<close>

definition Experiment_getitem :: "('m, 's) Experiment \<Rightarrow> int \<Rightarrow> error + 's" where
  "Experiment_getitem self index =
    (if 0 \<le> index \<and> index < int (length (sessions self)) then
       Inr (sessions self ! nat index)
     else if index < 0 \<and> - int (length (sessions self)) \<le> index then
       Inr (sessions self ! nat (int (length (sessions self)) + index))
     else Inl IndexError)"

definition Experiment_len :: "('m, 's) Experiment \<Rightarrow> nat" where
  "Experiment_len self = length (sessions self)"

subsection \<open>Batch methods\<close>

text \<open>
  \<open>pd.concat(objs, axis=1, keys=keys, ...)\<close>: the tables side by side under a new outer
  level, modelled as the list of tables with their keys. pandas raises \<open>ValueError\<close>
  when there is nothing to concatenate.
\<close>

definition pd_concat :: "'df list \<Rightarrow> nat list \<Rightarrow> error + (nat \<times> 'df) list" where
  "pd_concat objs keys = (if objs = [] then Inl ValueError else Inr (zip keys objs))"

text \<open>
  The two branches of a loop body: \<open>if units:\<close> is false for \<open>None\<close> and for an empty
  list; otherwise the session's method gets \<open>units[i]\<close>. The method \<open>m\<close> of a session is
  defined outside the files at hand.
\<close>

definition call_session ::
  "('s \<Rightarrow> 'a \<Rightarrow> 'u option \<Rightarrow> error + 'df) \<Rightarrow> 'a \<Rightarrow> 'u list option \<Rightarrow> nat \<Rightarrow> 's \<Rightarrow> error + 'df" where
  "call_session m args units i session =
    (case units of
       None \<Rightarrow> m session args None
     | Some us \<Rightarrow>
        if us = [] then m session args None
        else if i < length us then m session args (Some (us ! i))
        else Inl IndexError)"

text \<open>The loop of \<open>align_trials\<close>, lines 200 to 204: every result is appended.\<close>

fun collect_trials ::
  "('s \<Rightarrow> 'a \<Rightarrow> 'u option \<Rightarrow> error + 'df) \<Rightarrow> 'a \<Rightarrow> 'u list option \<Rightarrow> nat \<Rightarrow> 's list \<Rightarrow> 'df list
    \<Rightarrow> error + 'df list" where
  "collect_trials m args units i [] acc = Inr acc"
| "collect_trials m args units i (session # rest) acc =
    (case call_session m args units i session of
       Inl e \<Rightarrow> Inl e
     | Inr df \<Rightarrow> collect_trials m args units (Suc i) rest (acc @ [df]))"

definition align_trials ::
  "('s \<Rightarrow> 'a \<Rightarrow> 'u option \<Rightarrow> error + 'df) \<Rightarrow> ('m, 's) Experiment \<Rightarrow> 'a \<Rightarrow> 'u list option
    \<Rightarrow> error + (nat \<times> 'df) list" where
  "align_trials m self args units =
    (case collect_trials m args units 0 (sessions self) [] of
       Inl e \<Rightarrow> Inl e
     | Inr collected \<Rightarrow> pd_concat collected [0..<length collected])"

text \<open>
  Lines 227, 246 and 266 read the attribute \<open>sessons\<close>. \<open>__init__\<close> binds the session
  list under the name \<open>sessions\<close> and the class has no \<open>__getattr__\<close>, so reading any
  other name for it raises \<open>AttributeError\<close>.
\<close>

definition getattr_session_list :: "('m, 's) Experiment \<Rightarrow> string \<Rightarrow> error + 's list" where
  "getattr_session_list self attr =
    (if attr = ''sessions'' then Inr (sessions self) else Inl AttributeError)"

text \<open>
  The loops of \<open>get_spike_widths\<close>, \<open>get_spike_waveforms\<close> and
  \<open>get_aligned_spike_rate_CI\<close>: the result of each call is dropped.
\<close>

fun call_each ::
  "('s \<Rightarrow> 'a \<Rightarrow> 'u option \<Rightarrow> error + 'df) \<Rightarrow> 'a \<Rightarrow> 'u list option \<Rightarrow> nat \<Rightarrow> 's list \<Rightarrow> error + unit" where
  "call_each m args units i [] = Inr ()"
| "call_each m args units i (session # rest) =
    (case call_session m args units i session of
       Inl e \<Rightarrow> Inl e
     | Inr df \<Rightarrow> call_each m args units (Suc i) rest)"

definition get_spike_widths ::
  "('s \<Rightarrow> unit \<Rightarrow> 'u option \<Rightarrow> error + 'df) \<Rightarrow> ('m, 's) Experiment \<Rightarrow> 'u list option
    \<Rightarrow> error + (nat \<times> 'df) list" where
  "get_spike_widths m self units =
    (case getattr_session_list self ''sessons'' of
       Inl e \<Rightarrow> Inl e
     | Inr ss \<Rightarrow>
        (case call_each m () units 0 ss of
           Inl e \<Rightarrow> Inl e
         | Inr u \<Rightarrow> pd_concat [] [0..<length ([] :: 'df list)]))"

definition get_spike_waveforms ::
  "('s \<Rightarrow> unit \<Rightarrow> 'u option \<Rightarrow> error + 'df) \<Rightarrow> ('m, 's) Experiment \<Rightarrow> 'u list option
    \<Rightarrow> error + (nat \<times> 'df) list" where
  "get_spike_waveforms m self units =
    (case getattr_session_list self ''sessons'' of
       Inl e \<Rightarrow> Inl e
     | Inr ss \<Rightarrow>
        (case call_each m () units 0 ss of
           Inl e \<Rightarrow> Inl e
         | Inr u \<Rightarrow> pd_concat [] [0..<length ([] :: 'df list)]))"

definition get_aligned_spike_rate_CI ::
  "('s \<Rightarrow> 'a \<Rightarrow> 'u option \<Rightarrow> error + 'df) \<Rightarrow> ('m, 's) Experiment \<Rightarrow> 'a \<Rightarrow> 'u list option
    \<Rightarrow> error + (nat \<times> 'df) list" where
  "get_aligned_spike_rate_CI m self args units =
    (case getattr_session_list self ''sessons'' of
       Inl e \<Rightarrow> Inl e
     | Inr ss \<Rightarrow>
        (case call_each m args units 0 ss of
           Inl e \<Rightarrow> Inl e
         | Inr u \<Rightarrow> pd_concat [] [0..<length ([] :: 'df list)]))"

section \<open>Example inputs\<close>

text \<open>
  A thresholding function, one instance of the parameter \<open>binarise\<close>: every sample
  above the level becomes 1, every other sample 0.
\<close>

definition binarise_at :: "real \<Rightarrow> dataframe \<Rightarrow> dataframe" where
  "binarise_at level df =
    df\<lparr>columns := (\<lambda>k. map_option (\<lambda>s i. if level < s i then 1 else 0) (columns df k))\<rparr>"

text \<open>
  One instance of \<open>np.argsort\<close>: insertion sort of the positions by their values,
  which keeps equal values in their order of position. On arrays without equal values
  every instance gives the same result.
\<close>

definition stable_argsort :: "('a :: linorder) list \<Rightarrow> nat list" where
  "stable_argsort xs = sort_key (\<lambda>i. xs ! i) [0..<length xs]"

definition example_numpy :: numpy where
  "example_numpy = \<lparr>argsort_int = stable_argsort, argsort_float = stable_argsort\<rparr>"

text \<open>Seven samples with two LED pulses, of two samples and of one sample.\<close>

definition example_table :: dataframe where
  "example_table =
    \<lparr>index_len = 7,
     columns = [ReachLEDs \<mapsto> (\<lambda>i. [0.1, 4.9, 5, 0, 0.2, 5.1, 0] ! i),
                NpxlSync_Signal \<mapsto> (\<lambda>i. [0, 5, 0, 5, 0, 5, 0] ! i)]\<rparr>"

text \<open>The same pulses with the sync channel subtracted at half weight.\<close>

definition corrupted_table :: dataframe where
  "corrupted_table =
    \<lparr>index_len = 7,
     columns = [ReachLEDs \<mapsto> (\<lambda>i. [0, 2, 5, - 3, 0, 2, 0] ! i),
                NpxlSync_Signal \<mapsto> (\<lambda>i. [0, 6, 0, 6, 0, 6, 0] ! i)]\<rparr>"

text \<open>An early recording: the LED trace under the key of the back sensor only.\<close>

definition back_sensor_table :: dataframe where
  "back_sensor_table =
    \<lparr>index_len = 7,
     columns = [Back_Sensor \<mapsto> (\<lambda>i. [0.1, 4.9, 5, 0, 0.2, 5.1, 0] ! i),
                NpxlSync_Signal \<mapsto> (\<lambda>i. [0, 5, 0, 5, 0, 5, 0] ! i)]\<rparr>"

definition long_left_correct :: trial where
  "long_left_correct = \<lparr>spout = LEFT, outcome = CORRECT, cue_duration = 0.5\<rparr>"

definition short_right_miss :: trial where
  "short_right_miss = \<lparr>spout = RIGHT, outcome = MISSED, cue_duration = 0.25\<rparr>"

text \<open>Two trials that match the pulses, the same two in the other order, and one trial.\<close>

definition matching_session :: reach where
  "matching_session =
    \<lparr>name = ''s1'', metadata = \<lparr>trials = [long_left_correct, short_right_miss]\<rparr>\<rparr>"

definition swapped_session :: reach where
  "swapped_session =
    \<lparr>name = ''s2'', metadata = \<lparr>trials = [short_right_miss, long_left_correct]\<rparr>\<rparr>"

definition short_session :: reach where
  "short_session = \<lparr>name = ''s3'', metadata = \<lparr>trials = [long_left_correct]\<rparr>\<rparr>"

text \<open>
  A file system with the directories \<open>/data\<close> and \<open>/meta\<close>, where joining a name to
  \<open>/data\<close> needs no normalising; a discovery that finds two sessions; and a session
  class that keeps its three arguments.
\<close>

definition example_fs :: filesystem where
  "example_fs =
    \<lparr>expanduser = (\<lambda>p. p), exists = (\<lambda>p. p = ''/data'' \<or> p = ''/meta''),
     joinpath = (\<lambda>p c. p @ ''/'' @ c)\<rparr>"

definition example_get_sessions ::
  "string list \<Rightarrow> string \<Rightarrow> string option \<Rightarrow> error + nat session_info list" where
  "example_get_sessions ids d m =
    Inr [\<lparr>info_name = ''a'', info_metadata = 1, info_data_dir = d\<rparr>,
         \<lparr>info_name = ''b'', info_metadata = 2, info_data_dir = d\<rparr>]"

definition example_behaviour :: "string \<Rightarrow> nat \<Rightarrow> string \<Rightarrow> error + (string \<times> nat \<times> string)" where
  "example_behaviour n md d = Inr (n, md, d)"

definition example_experiment :: "(nat, string \<times> nat \<times> string) Experiment" where
  "example_experiment =
    \<lparr>behaviour = example_behaviour, mouse_ids = [''m1''], data_dir = ''/data'',
     meta_dir = Some ''/meta'', raw = ''/data/raw'', processed = ''/data/processed'',
     interim = ''/data/interim'',
     sessions = [(''a'', 1, ''/data''), (''b'', 2, ''/data'')]\<rparr>"

text \<open>A recording that starts with the LED on: two falling edges, one rising edge.\<close>

definition early_pulse_table :: dataframe where
  "early_pulse_table =
    \<lparr>index_len = 5, columns = [ReachLEDs \<mapsto> (\<lambda>i. [5, 0, 5, 5, 0] ! i)]\<rparr>"

text \<open>A recording that starts with the LED on: three falling edges, two rising edges.\<close>

definition leading_pulse_table :: dataframe where
  "leading_pulse_table =
    \<lparr>index_len = 6, columns = [ReachLEDs \<mapsto> (\<lambda>i. [5, 0, 5, 0, 5, 0] ! i)]\<rparr>"

section \<open>The public constants\<close>

text \<open>
  C8. The constants have these exact values: \<open>miss_left = 1\<close>, \<open>miss_right = 2\<close>,
  \<open>correct_left = 4\<close>, \<open>correct_right = 8\<close>, \<open>incorrect_left = 16\<close>,
  \<open>incorrect_right = 32\<close>, \<open>naive_left_short = 64\<close>, \<open>naive_left_long = 128\<close>,
  \<open>naive_right_short = 256\<close>, \<open>naive_right_long = 512\<close>; \<open>naive_left\<close>,
  \<open>naive_right\<close>, \<open>naive_short\<close> and \<open>naive_long\<close> are the bitwise ORs of their pairs
  (192, 768, 320 and 640); \<open>Events.led_on = 1\<close> and \<open>Events.led_off = 2\<close>.
\<close>

theorem constants_bit_stable:
  "miss_left = 1 \<and> miss_right = 2 \<and> correct_left = 4 \<and> correct_right = 8
   \<and> incorrect_left = 16 \<and> incorrect_right = 32
   \<and> naive_left_short = 64 \<and> naive_left_long = 128
   \<and> naive_right_short = 256 \<and> naive_right_long = 512
   \<and> naive_left = naive_left_short OR naive_left_long \<and> naive_left = 192
   \<and> naive_right = naive_right_short OR naive_right_long \<and> naive_right = 768
   \<and> naive_short = naive_left_short OR naive_right_short \<and> naive_short = 320
   \<and> naive_long = naive_left_long OR naive_right_long \<and> naive_long = 640
   \<and> led_on = 1 \<and> led_off = 2"
  by (simp add: miss_left_def miss_right_def correct_left_def correct_right_def
      incorrect_left_def incorrect_right_def naive_left_short_def naive_left_long_def
      naive_right_short_def naive_right_long_def naive_left_def naive_right_def
      naive_short_def naive_long_def led_on_def led_off_def)

section \<open>Properties of \<open>Reach._extract_action_labels\<close>\<close>

lemma trial_label_selected:
  "trial_label t =
    (case selected_bitmask (spout t) (outcome t) of None \<Rightarrow> Inl KeyError | Some v \<Rightarrow> Inr v)"
  by (cases "spout t"; cases "outcome t")
     (simp_all add: trial_label_def getattr_ActionLabels_def ActionLabels_def)

lemma selected_bitmask_nonzero: "selected_bitmask s oc = Some v \<Longrightarrow> v \<noteq> 0"
  by (cases s; cases oc)
     (auto simp: miss_left_def miss_right_def correct_left_def correct_right_def
        incorrect_left_def incorrect_right_def)

lemma trial_label_error: "trial_label t = Inl e \<Longrightarrow> e = KeyError"
  by (auto simp: trial_label_selected split: option.splits)

lemma set_np_where: "set (np_where bs) = {i. i < length bs \<and> bs ! i}"
  by (auto simp: np_where_def)

lemma distinct_np_where: "distinct (np_where bs)"
  by (simp add: np_where_def)

lemma mem_led_onsets:
  "i \<in> set (led_onsets c) \<longleftrightarrow> Suc i < length c \<and> c ! i = 0 \<and> c ! Suc i = 1"
  by (auto simp: led_onsets_def set_np_where nth_butlast nth_tl)

lemma mem_led_offsets:
  "i \<in> set (led_offsets c) \<longleftrightarrow> Suc i < length c \<and> c ! i = 1 \<and> c ! Suc i = 0"
  by (auto simp: led_offsets_def set_np_where nth_butlast nth_tl)

lemma distinct_led_onsets: "distinct (led_onsets c)"
  by (simp add: led_onsets_def distinct_np_where)

lemma distinct_led_offsets: "distinct (led_offsets c)"
  by (simp add: led_offsets_def distinct_np_where)

lemma onsets_offsets_disjoint: "set (led_onsets c) \<inter> set (led_offsets c) = {}"
  by (auto simp: mem_led_onsets mem_led_offsets)

lemma set_entries_Inr:
  "(\<forall>i\<in>set idx. i < length a) \<Longrightarrow> (\<forall>r\<in>set a. j < length r) \<Longrightarrow>
   \<exists>a'. set_entries a idx j v = Inr a' \<and> length a' = length a
     \<and> (\<forall>k<length a. a' ! k = (if k \<in> set idx then (a ! k)[j := v] else a ! k))"
proof (induction idx arbitrary: a)
  case Nil
  then show ?case by simp
next
  case (Cons i idx)
  let ?a1 = "a[i := (a ! i)[j := v]]"
  have i: "i < length a" and j: "j < length (a ! i)" using Cons.prems by auto
  have e: "set_entry a i j v = Inr ?a1" using i j by (simp add: set_entry_def)
  have p1: "\<forall>i\<in>set idx. i < length ?a1" using Cons.prems by simp
  have p2: "\<forall>r\<in>set ?a1. j < length r"
    using Cons.prems(2) i by (auto dest!: set_update_subset_insert[THEN subsetD])
  from Cons.IH[OF p1 p2] obtain a' where
    a': "set_entries ?a1 idx j v = Inr a'" "length a' = length a"
    "\<forall>k<length a. a' ! k = (if k \<in> set idx then (?a1 ! k)[j := v] else ?a1 ! k)"
    by auto
  have "\<forall>k<length a. a' ! k = (if k \<in> set (i # idx) then (a ! k)[j := v] else a ! k)"
    using a'(3) i by (auto simp: nth_list_update)
  then show ?case using e a'(1,2) by simp
qed

lemma events_written:
  assumes "length c = n"
  shows "\<exists>a1 a2. set_entries (np_zeros n 2) (led_onsets c) 1 led_on = Inr a1
     \<and> set_entries a1 (led_offsets c) 1 led_off = Inr a2
     \<and> length a2 = n
     \<and> (\<forall>k<n. a2 ! k = [0, if k \<in> set (led_offsets c) then led_off
                            else if k \<in> set (led_onsets c) then led_on else 0])"
proof -
  let ?a0 = "np_zeros n 2"
  have l0: "length ?a0 = n" by (simp add: np_zeros_def)
  have r0: "\<forall>r\<in>set ?a0. 1 < length r" by (auto simp: np_zeros_def)
  have i0: "\<forall>i\<in>set (led_onsets c). i < length ?a0"
    using assms by (auto simp: mem_led_onsets l0)
  from set_entries_Inr[OF i0 r0, of led_on] obtain a1 where
    a1: "set_entries ?a0 (led_onsets c) 1 led_on = Inr a1" "length a1 = n"
      "\<forall>k<n. a1 ! k = (if k \<in> set (led_onsets c) then (?a0 ! k)[1 := led_on] else ?a0 ! k)"
    by (auto simp: l0)
  have a1': "\<forall>k<n. a1 ! k = [0, if k \<in> set (led_onsets c) then led_on else 0]"
    using a1(3) by (simp add: np_zeros_def numeral_2_eq_2)
  have r1: "\<forall>r\<in>set a1. 1 < length r"
    using a1' a1(2) by (auto simp: in_set_conv_nth)
  have i1: "\<forall>i\<in>set (led_offsets c). i < length a1"
    using assms a1(2) by (auto simp: mem_led_offsets)
  from set_entries_Inr[OF i1 r1, of led_off] obtain a2 where
    a2: "set_entries a1 (led_offsets c) 1 led_off = Inr a2" "length a2 = n"
      "\<forall>k<n. a2 ! k = (if k \<in> set (led_offsets c) then (a1 ! k)[1 := led_off] else a1 ! k)"
    by (auto simp: a1(2))
  have "\<forall>k<n. a2 ! k = [0, if k \<in> set (led_offsets c) then led_off
                            else if k \<in> set (led_onsets c) then led_on else 0]"
    using a2(3) a1' by simp
  then show ?thesis using a1(1) a2(1,2) by blast
qed

lemma label_samples_unfold:
  assumes "length c = n"
  shows "\<exists>a2. length a2 = n
     \<and> (\<forall>k<n. a2 ! k = [0, if k \<in> set (led_offsets c) then led_off
                            else if k \<in> set (led_onsets c) then led_on else 0])
     \<and> label_samples np self (np_zeros n 2) c plot = check_and_write np self a2 c plot"
proof -
  from events_written[OF assms] obtain a1 a2 where
    a: "set_entries (np_zeros n 2) (led_onsets c) 1 led_on = Inr a1"
       "set_entries a1 (led_offsets c) 1 led_off = Inr a2"
       "length a2 = n"
       "\<forall>k<n. a2 ! k = [0, if k \<in> set (led_offsets c) then led_off
                            else if k \<in> set (led_onsets c) then led_on else 0]"
    by blast
  have "label_samples np self (np_zeros n 2) c plot = check_and_write np self a2 c plot"
    by (simp only: label_samples_def a(1,2) sum.case)
  with a(3,4) show ?thesis by blast
qed

lemma write_trials_error:
  "write_trials ons a i ts = Inl e \<Longrightarrow> e = KeyError \<or> e = IndexError"
proof (induction ts arbitrary: a i)
  case Nil
  then show ?case by simp
next
  case (Cons t ts)
  then show ?case
    by (auto simp: set_entry_def split: sum.splits if_splits dest: trial_label_error)
qed

lemma write_trials_frame:
  "write_trials ons a i ts = Inr a' \<Longrightarrow>
     length a' = length a
     \<and> (\<forall>k. k \<notin> set ons \<longrightarrow> a' ! k = a ! k)
     \<and> (\<forall>k<length a. length (a' ! k) = length (a ! k) \<and> (\<forall>m. 0 < m \<longrightarrow> a' ! k ! m = a ! k ! m))"
proof (induction ts arbitrary: a i)
  case Nil
  then show ?case by simp
next
  case (Cons t ts)
  from Cons.prems obtain v where
    v: "trial_label t = Inr v" and i: "i < length ons"
    and o: "ons ! i < length a" "0 < length (a ! (ons ! i))"
    and r: "write_trials ons (a[ons ! i := (a ! (ons ! i))[0 := v]]) (Suc i) ts = Inr a'"
    by (auto simp: set_entry_def split: sum.splits if_splits)
  have "ons ! i \<in> set ons" using i by simp
  with Cons.IH[OF r] o show ?case
    by (auto simp: nth_list_update)
qed

lemma write_trials_untouched:
  "write_trials ons a i ts = Inr a' \<Longrightarrow> k \<notin> set (drop i ons) \<Longrightarrow> a' ! k = a ! k"
proof (induction ts arbitrary: a i)
  case Nil
  then show ?case by simp
next
  case (Cons t ts)
  from Cons.prems(1) obtain v where
    i: "i < length ons"
    and r: "write_trials ons (a[ons ! i := (a ! (ons ! i))[0 := v]]) (Suc i) ts = Inr a'"
    by (auto simp: set_entry_def split: sum.splits if_splits)
  have d: "drop i ons = ons ! i # drop (Suc i) ons"
    using i by (simp add: Cons_nth_drop_Suc)
  have "k \<noteq> ons ! i" and "k \<notin> set (drop (Suc i) ons)"
    using Cons.prems(2) d by auto
  with Cons.IH[OF r] show ?case by simp
qed

lemma write_trials_Inr:
  assumes "\<forall>t\<in>set ts. selected_bitmask (spout t) (outcome t) \<noteq> None"
    and "i + length ts \<le> length ons"
    and "\<forall>k\<in>set ons. k < length a"
    and "\<forall>r\<in>set a. 0 < length r"
    and "distinct ons"
  shows "\<exists>a'. write_trials ons a i ts = Inr a'
     \<and> (\<forall>j<length ts. selected_bitmask (spout (ts ! j)) (outcome (ts ! j))
           = Some (a' ! (ons ! (i + j)) ! 0))"
  using assms
proof (induction ts arbitrary: a i)
  case Nil
  then show ?case by simp
next
  case (Cons t ts)
  from Cons.prems(1) obtain v where sv: "selected_bitmask (spout t) (outcome t) = Some v"
    by auto
  then have v: "trial_label t = Inr v" by (simp add: trial_label_selected)
  let ?k = "ons ! i"
  let ?a1 = "a[?k := (a ! ?k)[0 := v]]"
  have i: "i < length ons" using Cons.prems(2) by simp
  then have k: "?k < length a" using Cons.prems(3) by simp
  then have k0: "0 < length (a ! ?k)" using Cons.prems(4) by simp
  have e: "set_entry a ?k 0 v = Inr ?a1" using k k0 by (simp add: set_entry_def)
  have p1: "\<forall>t\<in>set ts. selected_bitmask (spout t) (outcome t) \<noteq> None"
    using Cons.prems(1) by simp
  have p2: "Suc i + length ts \<le> length ons" using Cons.prems(2) by simp
  have p3: "\<forall>k\<in>set ons. k < length ?a1" using Cons.prems(3) by simp
  have p4: "\<forall>r\<in>set ?a1. 0 < length r"
  proof
    fix r assume "r \<in> set ?a1"
    then have "r = (a ! ?k)[0 := v] \<or> r \<in> set a"
      using set_update_subset_insert[of a ?k "(a ! ?k)[0 := v]"] by auto
    then show "0 < length r"
    proof
      assume "r = (a ! ?k)[0 := v]"
      then have "length r = length (a ! ?k)" by simp
      then show ?thesis using k0 by simp
    next
      assume "r \<in> set a"
      then show ?thesis using Cons.prems(4) by simp
    qed
  qed
  from Cons.IH[OF p1 p2 p3 p4 Cons.prems(5)] obtain a' where
    a': "write_trials ons ?a1 (Suc i) ts = Inr a'"
    "\<forall>j<length ts. selected_bitmask (spout (ts ! j)) (outcome (ts ! j))
           = Some (a' ! (ons ! (Suc i + j)) ! 0)"
    by blast
  have w: "write_trials ons a i (t # ts) = Inr a'"
    using v i e a'(1) by simp
  have first: "a' ! ?k ! 0 = v"
  proof -
    have "?k \<notin> set (drop (Suc i) ons)"
      using Cons.prems(5) i
      by (metis Cons_nth_drop_Suc distinct.simps(2) distinct_drop)
    then have "a' ! ?k = ?a1 ! ?k"
      using write_trials_untouched[OF a'(1)] by simp
    then show ?thesis using k k0 by simp
  qed
  have "\<forall>j<length (t # ts). selected_bitmask (spout ((t # ts) ! j)) (outcome ((t # ts) ! j))
           = Some (a' ! (ons ! (i + j)) ! 0)"
  proof (intro allI impI)
    fix j assume "j < length (t # ts)"
    then show "selected_bitmask (spout ((t # ts) ! j)) (outcome ((t # ts) ! j))
           = Some (a' ! (ons ! (i + j)) ! 0)"
      using sv first a'(2) by (cases j) auto
  qed
  then show ?case using w by blast
qed


lemma np_subtract_error: "np_subtract a b = Inl e \<Longrightarrow> e = ValueError"
  by (auto simp: np_subtract_def split: if_splits)

lemma messages_differ: "trial_count_message n \<noteq> trial_data_message n"
  by (simp add: trial_count_message_def trial_data_message_def)

lemma read_cue_leds_length: "read_cue_leds df = Inr c \<Longrightarrow> length c = index_len df"
  by (auto simp: read_cue_leds_def values_of_def split: sum.splits)

lemma extract_unfold:
  assumes "correct_leds t = Inr t'" and "read_cue_leds (b t') = Inr c"
  shows "extract_action_labels b np self t plot = label_samples np self (np_zeros (length c) 2) c plot"
  using assms read_cue_leds_length[OF assms(2)] by (simp add: extract_action_labels_def)

text \<open>
  C3. On a table whose LED trace can be read (the correction and the read of the
  binarised trace both succeed), \<open>_extract_action_labels\<close> raises the \<open>PixelsError\<close>
  with the trial-count message if and only if the number of detected rising edges
  differs from the number of trials in the metadata, and then returns no labels. When
  the two numbers agree a \<open>PixelsError\<close> can still be raised, by the rank check only:
  exactly when the cue durations are defined and their rank order differs from the
  rank order of the durations in the metadata.
\<close>

theorem trial_count_check:
  assumes "correct_leds behavioural_data = Inr corrected"
    and "read_cue_leds (binarise corrected) = Inr cue_leds"
  shows "(extract_action_labels binarise np self behavioural_data plot
            = Inl (PixelsError (trial_count_message (name self)))
          \<longleftrightarrow> length (led_onsets cue_leds) \<noteq> length (trials (metadata self)))
       \<and> (length (led_onsets cue_leds) \<noteq> length (trials (metadata self))
            \<longrightarrow> (\<forall>labels. extract_action_labels binarise np self behavioural_data plot
                   \<noteq> Inr labels))
       \<and> (length (led_onsets cue_leds) = length (trials (metadata self))
            \<longrightarrow> ((\<exists>m. extract_action_labels binarise np self behavioural_data plot
                      = Inl (PixelsError m))
                 \<longleftrightarrow> (\<exists>d. np_subtract (map int (led_offsets cue_leds))
                              (map int (led_onsets cue_leds)) = Inr d
                          \<and> argsort_int np d
                              \<noteq> argsort_float np (map cue_duration (trials (metadata self))))))"
proof -
  obtain a2 where
    u: "label_samples np self (np_zeros (length cue_leds) 2) cue_leds plot
        = check_and_write np self a2 cue_leds plot"
    using label_samples_unfold[OF refl, of cue_leds np self plot] by blast
  note r = extract_unfold[where b = binarise, OF assms]
  have c1: "extract_action_labels binarise np self behavioural_data plot
            = Inl (PixelsError (trial_count_message (name self)))
          \<longleftrightarrow> length (led_onsets cue_leds) \<noteq> length (trials (metadata self))"
    unfolding r u check_and_write_def
    using messages_differ[of "name self"]
    by (auto split: sum.splits dest: np_subtract_error write_trials_error)
  have c2: "\<forall>labels. extract_action_labels binarise np self behavioural_data plot \<noteq> Inr labels"
    if "length (led_onsets cue_leds) \<noteq> length (trials (metadata self))"
    using that c1 by simp
  have c3: "(\<exists>m. extract_action_labels binarise np self behavioural_data plot
                      = Inl (PixelsError m))
            \<longleftrightarrow> (\<exists>d. np_subtract (map int (led_offsets cue_leds))
                              (map int (led_onsets cue_leds)) = Inr d
                     \<and> argsort_int np d
                         \<noteq> argsort_float np (map cue_duration (trials (metadata self))))"
    if "length (led_onsets cue_leds) = length (trials (metadata self))"
    unfolding r u check_and_write_def
    using that
    by (auto split: sum.splits dest: np_subtract_error write_trials_error)
  from c1 c2 c3 show ?thesis by blast
qed

lemma events_rows_nonempty:
  assumes "length a2 = n"
    and "\<forall>k<n. a2 ! k = [0, if k \<in> set (led_offsets c) then led_off
                            else if k \<in> set (led_onsets c) then led_on else 0]"
  shows "\<forall>r\<in>set a2. 0 < length r"
  using assms by (auto simp: in_set_conv_nth)

text \<open>
  C2. On a table whose LED trace can be read and whose cue durations
  \<open>led_offsets - led_onsets\<close> are defined, \<open>_extract_action_labels\<close> raises a
  \<open>PixelsError\<close> if and only if the trial count differs or the rank order
  (\<open>np.argsort\<close>) of the durations from the signal differs from the rank order of the
  durations in the metadata; it is the \<open>PixelsError\<close> of the rank check if and only if
  the counts agree and the rank orders differ. In either case no labels are returned.
  When the counts agree and the rank orders are equal the method proceeds: it returns
  labels when every trial's side and outcome are keys of the maps and \<open>plot\<close> is off.
\<close>

theorem cue_duration_rank_check:
  assumes "correct_leds behavioural_data = Inr corrected"
    and "read_cue_leds (binarise corrected) = Inr cue_leds"
    and "np_subtract (map int (led_offsets cue_leds)) (map int (led_onsets cue_leds))
           = Inr cue_durations_tdms"
  shows "((\<exists>m. extract_action_labels binarise np self behavioural_data plot
             = Inl (PixelsError m))
          \<longleftrightarrow> length (led_onsets cue_leds) \<noteq> length (trials (metadata self))
              \<or> argsort_int np cue_durations_tdms
                  \<noteq> argsort_float np (map cue_duration (trials (metadata self))))
       \<and> (extract_action_labels binarise np self behavioural_data plot
            = Inl (PixelsError (trial_data_message (name self)))
          \<longleftrightarrow> length (led_onsets cue_leds) = length (trials (metadata self))
              \<and> argsort_int np cue_durations_tdms
                  \<noteq> argsort_float np (map cue_duration (trials (metadata self))))
       \<and> (length (led_onsets cue_leds) \<noteq> length (trials (metadata self))
            \<or> argsort_int np cue_durations_tdms
                \<noteq> argsort_float np (map cue_duration (trials (metadata self)))
          \<longrightarrow> (\<forall>labels. extract_action_labels binarise np self behavioural_data plot
                 \<noteq> Inr labels))
       \<and> (length (led_onsets cue_leds) = length (trials (metadata self))
            \<and> argsort_int np cue_durations_tdms
                = argsort_float np (map cue_duration (trials (metadata self)))
            \<and> (\<forall>t\<in>set (trials (metadata self)). trial_label t \<noteq> Inl KeyError) \<and> \<not> plot
          \<longrightarrow> (\<exists>labels. extract_action_labels binarise np self behavioural_data plot
                 = Inr labels))"
proof -
  let ?n = "length cue_leds"
  let ?count = "length (led_onsets cue_leds) = length (trials (metadata self))"
  let ?match = "argsort_int np cue_durations_tdms
      = argsort_float np (map cue_duration (trials (metadata self)))"
  let ?r = "extract_action_labels binarise np self behavioural_data plot"
  obtain a2 where
    l: "length a2 = ?n"
    and ev: "\<forall>k<?n. a2 ! k = [0, if k \<in> set (led_offsets cue_leds) then led_off
                            else if k \<in> set (led_onsets cue_leds) then led_on else 0]"
    and u: "label_samples np self (np_zeros ?n 2) cue_leds plot
        = check_and_write np self a2 cue_leds plot"
    using label_samples_unfold[OF refl, of cue_leds np self plot] by blast
  have r: "?r =
      (if \<not> ?count then Inl (PixelsError (trial_count_message (name self)))
       else if \<not> ?match then Inl (PixelsError (trial_data_message (name self)))
       else (case write_trials (led_onsets cue_leds) a2 0 (trials (metadata self)) of
            Inl e \<Rightarrow> Inl e
          | Inr a3 \<Rightarrow> if plot then Inl NameError else Inr a3))"
    unfolding extract_unfold[where b = binarise, OF assms(1,2)] u check_and_write_def
    using assms(3) by simp
  have c1: "(\<exists>m. ?r = Inl (PixelsError m)) \<longleftrightarrow> \<not> ?count \<or> \<not> ?match"
    unfolding r by (auto split: sum.splits dest: write_trials_error)
  have c2: "?r = Inl (PixelsError (trial_data_message (name self))) \<longleftrightarrow> ?count \<and> \<not> ?match"
    unfolding r using messages_differ[of "name self"]
    by (auto split: sum.splits dest: write_trials_error)
  have c3: "\<not> ?count \<or> \<not> ?match \<longrightarrow> (\<forall>labels. ?r \<noteq> Inr labels)"
    unfolding r by auto
  have c4: "\<exists>labels. ?r = Inr labels"
    if c: ?count and m: ?match
      and t: "\<forall>t\<in>set (trials (metadata self)). trial_label t \<noteq> Inl KeyError"
      and p: "\<not> plot"
  proof -
    have t': "\<forall>t\<in>set (trials (metadata self)). selected_bitmask (spout t) (outcome t) \<noteq> None"
    proof
      fix x assume "x \<in> set (trials (metadata self))"
      then have "trial_label x \<noteq> Inl KeyError" using t by blast
      then show "selected_bitmask (spout x) (outcome x) \<noteq> None"
        by (cases "selected_bitmask (spout x) (outcome x)") (simp_all add: trial_label_selected)
    qed
    have b: "\<forall>k\<in>set (led_onsets cue_leds). k < length a2"
      using l by (auto simp: mem_led_onsets)
    from write_trials_Inr[OF t' _ b events_rows_nonempty[OF l ev] distinct_led_onsets]
    obtain a' where "write_trials (led_onsets cue_leds) a2 0 (trials (metadata self)) = Inr a'"
      using c by auto
    then show ?thesis unfolding r using c m p by simp
  qed
  from c1 c2 c3 c4 show ?thesis by blast
qed

lemma correct_leds_index_len: "correct_leds t = Inr t' \<Longrightarrow> index_len t' = index_len t"
  by (auto simp: correct_leds_def setitem_def split: sum.splits if_splits)

lemma events_codes: "led_on \<noteq> 0 \<and> led_off \<noteq> 0 \<and> led_on \<noteq> led_off"
  by (simp add: led_on_def led_off_def)

text \<open>
  C10. Whenever \<open>_extract_action_labels\<close> returns, and \<open>binarise\<close> kept the number of
  rows, the result has one row per sample of the input table and two columns; every
  entry of column 1 is 0, \<open>led_on\<close> or \<open>led_off\<close>, with \<open>led_on\<close> exactly at the detected
  rising edges and \<open>led_off\<close> exactly at the detected falling edges; and every entry of
  column 0 outside the onset indices is zero.
\<close>

theorem labels_shape_and_events:
  assumes "correct_leds behavioural_data = Inr corrected"
    and "read_cue_leds (binarise corrected) = Inr cue_leds"
    and "index_len (binarise corrected) = index_len corrected"
    and "extract_action_labels binarise np self behavioural_data plot = Inr labels"
  shows "length labels = index_len behavioural_data
       \<and> (\<forall>k<length labels. length (labels ! k) = 2
            \<and> labels ! k ! 1 \<in> {0, led_on, led_off}
            \<and> (labels ! k ! 1 = led_on \<longleftrightarrow> k \<in> set (led_onsets cue_leds))
            \<and> (labels ! k ! 1 = led_off \<longleftrightarrow> k \<in> set (led_offsets cue_leds))
            \<and> (k \<notin> set (led_onsets cue_leds) \<longrightarrow> labels ! k ! 0 = 0))"
proof -
  let ?n = "length cue_leds"
  let ?ev = "\<lambda>k. if k \<in> set (led_offsets cue_leds) then led_off
                 else if k \<in> set (led_onsets cue_leds) then led_on else 0"
  obtain a2 where
    l: "length a2 = ?n"
    and ev: "\<forall>k<?n. a2 ! k = [0, ?ev k]"
    and u: "label_samples np self (np_zeros ?n 2) cue_leds plot
        = check_and_write np self a2 cue_leds plot"
    using label_samples_unfold[OF refl, of cue_leds np self plot] by blast
  have w: "write_trials (led_onsets cue_leds) a2 0 (trials (metadata self)) = Inr labels"
    using assms(4)
    unfolding extract_unfold[where b = binarise, OF assms(1,2)] u check_and_write_def
    by (auto split: sum.splits if_splits)
  note f = write_trials_frame[OF w]
  have n: "?n = index_len behavioural_data"
    using read_cue_leds_length[OF assms(2)] assms(3) correct_leds_index_len[OF assms(1)]
    by simp
  have len: "length labels = ?n" using f l by simp
  have row: "length (labels ! k) = 2 \<and> labels ! k ! 1 = ?ev k
      \<and> (k \<notin> set (led_onsets cue_leds) \<longrightarrow> labels ! k ! 0 = 0)" if "k < ?n" for k
  proof -
    have a: "a2 ! k = [0, ?ev k]" using ev that by blast
    have "length (labels ! k) = length (a2 ! k)" and "labels ! k ! 1 = a2 ! k ! 1"
      using f l that by auto
    moreover have "labels ! k = a2 ! k" if "k \<notin> set (led_onsets cue_leds)"
      using f that by blast
    ultimately show ?thesis unfolding a by simp
  qed
  have d: "\<not> (k \<in> set (led_onsets cue_leds) \<and> k \<in> set (led_offsets cue_leds))" for k
    using onsets_offsets_disjoint[of cue_leds] by blast
  show ?thesis
    unfolding len using n row d events_codes by auto
qed

text \<open>
  C1. For a binarised LED trace with \<open>N\<close> rising and \<open>N\<close> falling edges, and metadata
  with \<open>N\<close> trials whose cue-duration ranks match the signal (the two arrays that
  \<open>np.argsort\<close> returns are equal, as the method compares them) and whose sides and
  outcomes select a bitmask, \<open>_extract_action_labels\<close> (with \<open>plot\<close> off) returns a
  two-column array in which exactly \<open>N\<close> entries of column 0 are nonzero, at the \<open>N\<close>
  detected onset indices, and the entry at the onset of trial \<open>i\<close> is the bitmask
  selected by that trial's side and outcome.
\<close>

theorem action_labels_at_onsets:
  assumes "correct_leds behavioural_data = Inr corrected"
    and "read_cue_leds (binarise corrected) = Inr cue_leds"
    and "length (led_onsets cue_leds) = N"
    and "length (led_offsets cue_leds) = N"
    and "length (trials (metadata self)) = N"
    and "argsort_int np (map2 (-) (map int (led_offsets cue_leds)) (map int (led_onsets cue_leds)))
           = argsort_float np (map cue_duration (trials (metadata self)))"
    and "\<forall>t\<in>set (trials (metadata self)). selected_bitmask (spout t) (outcome t) \<noteq> None"
  shows "\<exists>labels. extract_action_labels binarise np self behavioural_data False = Inr labels
       \<and> (\<forall>row\<in>set labels. length row = 2)
       \<and> length (filter (\<lambda>row. row ! 0 \<noteq> 0) labels) = N
       \<and> (\<forall>k<length labels. labels ! k ! 0 \<noteq> 0 \<longleftrightarrow> k \<in> set (led_onsets cue_leds))
       \<and> (\<forall>i<N. selected_bitmask (spout (trials (metadata self) ! i))
                     (outcome (trials (metadata self) ! i))
                   = Some (labels ! (led_onsets cue_leds ! i) ! 0))"
proof -
  let ?n = "length cue_leds"
  let ?ons = "led_onsets cue_leds"
  let ?ts = "trials (metadata self)"
  let ?ev = "\<lambda>k. if k \<in> set (led_offsets cue_leds) then led_off
                 else if k \<in> set ?ons then led_on else 0"
  obtain a2 where
    l: "length a2 = ?n"
    and ev: "\<forall>k<?n. a2 ! k = [0, ?ev k]"
    and u: "label_samples np self (np_zeros ?n 2) cue_leds False
        = check_and_write np self a2 cue_leds False"
    using label_samples_unfold[OF refl, of cue_leds np self False] by blast
  have sub: "np_subtract (map int (led_offsets cue_leds)) (map int ?ons)
      = Inr (map2 (-) (map int (led_offsets cue_leds)) (map int ?ons))"
    using assms(3,4) by (simp add: np_subtract_def)
  have b: "\<forall>k\<in>set ?ons. k < length a2"
    using l by (auto simp: mem_led_onsets)
  from write_trials_Inr[OF assms(7) _ b events_rows_nonempty[OF l ev] distinct_led_onsets, of 0]
  obtain labels where
    w: "write_trials ?ons a2 0 ?ts = Inr labels"
    and v: "\<forall>j<length ?ts. selected_bitmask (spout (?ts ! j)) (outcome (?ts ! j))
           = Some (labels ! (?ons ! j) ! 0)"
    using assms(3,5) by auto
  have r: "extract_action_labels binarise np self behavioural_data False = Inr labels"
    unfolding extract_unfold[where b = binarise, OF assms(1,2)] u check_and_write_def
    using assms(3,5,6) sub w by simp
  note f = write_trials_frame[OF w]
  have len: "length labels = ?n" using f l by simp
  have rows: "\<forall>row\<in>set labels. length row = 2"
  proof
    fix row assume "row \<in> set labels"
    then obtain k where k: "k < ?n" "row = labels ! k"
      using len by (auto simp: in_set_conv_nth)
    then have "length (labels ! k) = length (a2 ! k)" using f l by simp
    then show "length row = 2" using k ev by simp
  qed
  have nz: "labels ! k ! 0 \<noteq> 0 \<longleftrightarrow> k \<in> set ?ons" if "k < ?n" for k
  proof (cases "k \<in> set ?ons")
    case True
    then obtain i where i: "i < length ?ons" "k = ?ons ! i"
      by (auto simp: in_set_conv_nth)
    then have "selected_bitmask (spout (?ts ! i)) (outcome (?ts ! i)) = Some (labels ! k ! 0)"
      using v assms(3,5) by simp
    then show ?thesis using True selected_bitmask_nonzero by blast
  next
    case False
    then have "labels ! k = a2 ! k" using f by blast
    then show ?thesis using False ev that by simp
  qed
  have "{k. k < length labels \<and> labels ! k ! 0 \<noteq> 0} = set ?ons"
    using nz len b l by auto
  then have cnt: "length (filter (\<lambda>row. row ! 0 \<noteq> 0) labels) = N"
    using assms(3) distinct_card[OF distinct_led_onsets, of cue_leds]
    by (simp add: length_filter_conv_card)
  show ?thesis
    using r rows cnt nz len v assms(5) by auto
qed

subsection \<open>Instances of \<open>np.argsort\<close>\<close>

text \<open>
  The insertion sort of the positions is an \<open>argsort\<close>, and on an array without equal
  values it is the only one: there the rank check does not depend on how numpy orders
  ties.
\<close>

lemma stable_argsort_is_argsort: "is_argsort xs (stable_argsort xs)"
  by (simp add: is_argsort_def stable_argsort_def)

lemma is_argsort_unique:
  assumes "distinct xs" and "is_argsort xs p" and "is_argsort xs q"
  shows "p = q"
proof -
  let ?f = "\<lambda>i. xs ! i"
  have inj: "inj_on ?f (set [0..<length xs])"
    using assms(1) by (auto simp: inj_on_def nth_eq_iff_index_eq)
  have sp: "set p = set [0..<length xs]" and sq: "set q = set [0..<length xs]"
    using assms(2,3) by (simp_all add: is_argsort_def)
  have dp: "distinct (map ?f p)" and dq: "distinct (map ?f q)"
    using assms(2,3) inj sp sq by (simp_all add: is_argsort_def distinct_map)
  have "sorted (map ?f p)" and "sorted (map ?f q)"
    using assms(2,3) by (simp_all add: is_argsort_def)
  moreover have "set (map ?f p) = set (map ?f q)"
    using sp sq by simp
  ultimately have "map ?f p = map ?f q"
    using dp dq by (metis sorted_distinct_set_unique)
  then show ?thesis
    using inj sp sq by (metis inj_on_map_eq_map sup.idem inj_on_Un)
qed

lemma is_argsort_stable: "distinct xs \<Longrightarrow> is_argsort xs p \<Longrightarrow> p = stable_argsort xs"
  using is_argsort_unique stable_argsort_is_argsort by blast

subsection \<open>The theorems at the example inputs\<close>

text \<open>
  The example table thresholded at 2.5 has rising edges at positions 0 and 4 and
  falling edges at positions 2 and 5: cue durations of 2 and 1 samples. Neither these
  nor the durations in the metadata of the example sessions hold equal values.
\<close>

lemma example_corrected: "correct_leds example_table = Inr example_table"
  by (simp add: correct_leds_def example_table_def getitem_def values_of_def min_below_def
      upt_rec ReachLEDs_def NpxlSync_Signal_def channel_key_def)

lemma example_trace:
  "read_cue_leds (binarise_at (5 / 2) example_table) = Inr [0, 1, 1, 0, 0, 1, 0]"
  by (simp add: read_cue_leds_def binarise_at_def example_table_def getitem_def values_of_def
      upt_rec ReachLEDs_def NpxlSync_Signal_def channel_key_def)

lemma example_onsets: "led_onsets [0, 1, 1, 0, 0, 1, 0] = [0, 4]"
  by code_simp

lemma example_offsets: "led_offsets [0, 1, 1, 0, 0, 1, 0] = [2, 5]"
  by code_simp

lemma example_durations:
  "np_subtract (map int (led_offsets [0, 1, 1, 0, 0, 1, 0]))
     (map int (led_onsets [0, 1, 1, 0, 0, 1, 0])) = Inr [2, 1]"
  by (simp add: example_onsets example_offsets np_subtract_def)

lemma argsort_signal: "argsort_int example_numpy [2, 1] = [1, 0]"
  by code_simp

lemma argsort_matching:
  "argsort_float example_numpy (map cue_duration (trials (metadata matching_session))) = [1, 0]"
  by code_simp

lemma argsort_swapped:
  "argsort_float example_numpy (map cue_duration (trials (metadata swapped_session))) = [0, 1]"
  by code_simp

text \<open>Whatever instance of \<open>np.argsort\<close> is taken, it gives these arrays there.\<close>

lemma example_ranks_fixed:
  "is_argsort [2, 1 :: int] p \<Longrightarrow> p = [1, 0]"
  "is_argsort [- 1, 2 :: int] p \<Longrightarrow> p = [0, 1]"
  "is_argsort (map cue_duration (trials (metadata matching_session))) q \<Longrightarrow> q = [1, 0]"
  "is_argsort (map cue_duration (trials (metadata swapped_session))) q \<Longrightarrow> q = [0, 1]"
proof -
  have a: "stable_argsort [2, 1 :: int] = [1, 0]" by code_simp
  have b: "stable_argsort [- 1, 2 :: int] = [0, 1]" by code_simp
  have c: "stable_argsort (map cue_duration (trials (metadata matching_session))) = [1, 0]"
    by code_simp
  have d: "stable_argsort (map cue_duration (trials (metadata swapped_session))) = [0, 1]"
    by code_simp
  have dc: "distinct (map cue_duration (trials (metadata matching_session)))"
    by (simp add: matching_session_def long_left_correct_def short_right_miss_def)
  have dd: "distinct (map cue_duration (trials (metadata swapped_session)))"
    by (simp add: swapped_session_def long_left_correct_def short_right_miss_def)
  show "is_argsort [2, 1 :: int] p \<Longrightarrow> p = [1, 0]"
    using is_argsort_stable[of "[2, 1 :: int]" p] a by simp
  show "is_argsort [- 1, 2 :: int] p \<Longrightarrow> p = [0, 1]"
    using is_argsort_stable[of "[- 1, 2 :: int]" p] b by simp
  show "is_argsort (map cue_duration (trials (metadata matching_session))) q \<Longrightarrow> q = [1, 0]"
    using is_argsort_stable[OF dc, of q] c by simp
  show "is_argsort (map cue_duration (trials (metadata swapped_session))) q \<Longrightarrow> q = [0, 1]"
    using is_argsort_stable[OF dd, of q] d by simp
qed

text \<open>
  C3 as it is written fails on the example table with the two trials in the
  other order: two rising edges and two trials, and a \<open>PixelsError\<close> is raised, by the
  rank check.
\<close>

theorem trial_count_counterexample:
  "read_cue_leds (binarise_at (5 / 2) example_table) = Inr [0, 1, 1, 0, 0, 1, 0]
   \<and> length (led_onsets [0, 1, 1, 0, 0, 1, 0]) = length (trials (metadata swapped_session))
   \<and> extract_action_labels (binarise_at (5 / 2)) example_numpy swapped_session example_table
        False
       = Inl (PixelsError (trial_data_message ''s2''))"
proof -
  have "length (led_onsets [0, 1, 1, 0, 0, 1, 0]) = length (trials (metadata swapped_session))"
    by (simp add: example_onsets swapped_session_def)
  moreover have "extract_action_labels (binarise_at (5 / 2)) example_numpy swapped_session
      example_table False = Inl (PixelsError (trial_data_message ''s2''))"
    by code_simp
  ultimately show ?thesis using example_trace by simp
qed

theorem trial_count_check_witness:
  "correct_leds example_table = Inr example_table
   \<and> read_cue_leds (binarise_at (5 / 2) example_table) = Inr [0, 1, 1, 0, 0, 1, 0]
   \<and> length (led_onsets [0, 1, 1, 0, 0, 1, 0]) = 2
   \<and> length (trials (metadata short_session)) = 1
   \<and> extract_action_labels (binarise_at (5 / 2)) example_numpy short_session example_table
        False
       = Inl (PixelsError (trial_count_message ''s3''))
   \<and> length (trials (metadata matching_session)) = 2
   \<and> extract_action_labels (binarise_at (5 / 2)) example_numpy matching_session example_table
        False
       \<noteq> Inl (PixelsError (trial_count_message ''s1''))"
  using trial_count_check[where binarise = "binarise_at (5 / 2)",
      OF example_corrected example_trace, of example_numpy short_session False]
    trial_count_check[where binarise = "binarise_at (5 / 2)",
      OF example_corrected example_trace, of example_numpy matching_session False]
  by (simp add: example_corrected example_trace example_onsets short_session_def
      matching_session_def)

lemma early_pulse_trace:
  "read_cue_leds (binarise_at (5 / 2) early_pulse_table) = Inr [1, 0, 1, 1, 0]"
  by (simp add: read_cue_leds_def binarise_at_def early_pulse_table_def getitem_def
      values_of_def upt_rec)

text \<open>
  C2 as it is written fails on a recording that starts with the LED on. With
  one rising edge, two falling edges and two trials, the durations broadcast to
  \<open>[-1, 2]\<close> and have the rank order of the metadata, and a \<open>PixelsError\<close> is raised, by
  the count check. With two rising edges, three falling edges and two trials, the
  method neither raises a \<open>PixelsError\<close> nor proceeds: the subtraction raises
  \<open>ValueError\<close>.
\<close>

theorem rank_check_counterexample:
  "read_cue_leds (binarise_at (5 / 2) early_pulse_table) = Inr [1, 0, 1, 1, 0]
   \<and> np_subtract (map int (led_offsets [1, 0, 1, 1, 0])) (map int (led_onsets [1, 0, 1, 1, 0]))
       = Inr [- 1, 2]
   \<and> argsort_int example_numpy [- 1, 2] = [0, 1]
   \<and> argsort_float example_numpy (map cue_duration (trials (metadata swapped_session))) = [0, 1]
   \<and> extract_action_labels (binarise_at (5 / 2)) example_numpy swapped_session
        early_pulse_table False
       = Inl (PixelsError (trial_count_message ''s2''))
   \<and> extract_action_labels (binarise_at (5 / 2)) example_numpy matching_session
        leading_pulse_table False
       = Inl ValueError"
proof -
  have "np_subtract (map int (led_offsets [1, 0, 1, 1, 0])) (map int (led_onsets [1, 0, 1, 1, 0]))
       = Inr [- 1, 2]"
    by code_simp
  moreover have "argsort_int example_numpy [- 1, 2] = [0, 1]"
    by code_simp
  moreover have "extract_action_labels (binarise_at (5 / 2)) example_numpy swapped_session
        early_pulse_table False = Inl (PixelsError (trial_count_message ''s2''))"
    by code_simp
  moreover have "extract_action_labels (binarise_at (5 / 2)) example_numpy matching_session
        leading_pulse_table False = Inl ValueError"
    by code_simp
  ultimately show ?thesis using early_pulse_trace argsort_swapped by simp
qed

theorem cue_duration_rank_check_witness:
  "correct_leds example_table = Inr example_table
   \<and> read_cue_leds (binarise_at (5 / 2) example_table) = Inr [0, 1, 1, 0, 0, 1, 0]
   \<and> np_subtract (map int (led_offsets [0, 1, 1, 0, 0, 1, 0]))
        (map int (led_onsets [0, 1, 1, 0, 0, 1, 0])) = Inr [2, 1]
   \<and> length (led_onsets [0, 1, 1, 0, 0, 1, 0]) = length (trials (metadata swapped_session))
   \<and> argsort_int example_numpy [2, 1] = [1, 0]
   \<and> argsort_float example_numpy (map cue_duration (trials (metadata swapped_session))) = [0, 1]
   \<and> extract_action_labels (binarise_at (5 / 2)) example_numpy swapped_session example_table
        False
       = Inl (PixelsError (trial_data_message ''s2''))
   \<and> argsort_float example_numpy (map cue_duration (trials (metadata matching_session))) = [1, 0]
   \<and> (\<exists>labels. extract_action_labels (binarise_at (5 / 2)) example_numpy matching_session
          example_table False = Inr labels)"
proof -
  have c: "length (led_onsets [0, 1, 1, 0, 0, 1, 0]) = length (trials (metadata swapped_session))"
    by (simp add: example_onsets swapped_session_def)
  have c': "length (led_onsets [0, 1, 1, 0, 0, 1, 0]) = length (trials (metadata matching_session))"
    by (simp add: example_onsets matching_session_def)
  have n: "name swapped_session = ''s2''" by (simp add: swapped_session_def)
  have k: "\<forall>t\<in>set (trials (metadata matching_session)). trial_label t \<noteq> Inl KeyError"
    by (simp add: matching_session_def long_left_correct_def short_right_miss_def
        trial_label_selected)
  note t1 = cue_duration_rank_check[where binarise = "binarise_at (5 / 2)",
      OF example_corrected example_trace example_durations, of example_numpy swapped_session False]
  note t2 = cue_duration_rank_check[where binarise = "binarise_at (5 / 2)",
      OF example_corrected example_trace example_durations, of example_numpy matching_session False]
  have r1: "extract_action_labels (binarise_at (5 / 2)) example_numpy swapped_session
      example_table False = Inl (PixelsError (trial_data_message ''s2''))"
    using t1 c unfolding argsort_signal argsort_swapped n by simp
  have r2: "\<exists>labels. extract_action_labels (binarise_at (5 / 2)) example_numpy matching_session
          example_table False = Inr labels"
    using t2 c' k unfolding argsort_signal argsort_matching by simp
  show ?thesis
    using example_corrected example_trace example_durations c argsort_signal argsort_swapped
      argsort_matching r1 r2
    by simp
qed

lemma matching_result:
  "extract_action_labels (binarise_at (5 / 2)) example_numpy matching_session example_table False
     = Inr [[4, 1], [0, 0], [0, 2], [0, 0], [2, 1], [0, 2], [0, 0]]"
  by code_simp

theorem labels_shape_and_events_witness:
  "correct_leds example_table = Inr example_table
   \<and> read_cue_leds (binarise_at (5 / 2) example_table) = Inr [0, 1, 1, 0, 0, 1, 0]
   \<and> index_len (binarise_at (5 / 2) example_table) = index_len example_table
   \<and> extract_action_labels (binarise_at (5 / 2)) example_numpy matching_session example_table
        False
       = Inr [[4, 1], [0, 0], [0, 2], [0, 0], [2, 1], [0, 2], [0, 0]]
   \<and> length [[4, 1], [0, 0], [0, 2], [0, 0], [2, 1], [0, 2], [0 :: int, 0]]
       = index_len example_table"
proof -
  have i: "index_len (binarise_at (5 / 2) example_table) = index_len example_table"
    by (simp add: binarise_at_def)
  from labels_shape_and_events[where binarise = "binarise_at (5 / 2)",
      OF example_corrected example_trace i matching_result]
  have "length [[4, 1], [0, 0], [0, 2], [0, 0], [2, 1], [0, 2], [0 :: int, 0]]
       = index_len example_table"
    by blast
  then show ?thesis using example_corrected example_trace i matching_result by simp
qed

theorem action_labels_at_onsets_witness:
  "correct_leds example_table = Inr example_table
   \<and> read_cue_leds (binarise_at (5 / 2) example_table) = Inr [0, 1, 1, 0, 0, 1, 0]
   \<and> led_onsets [0, 1, 1, 0, 0, 1, 0] = [0, 4]
   \<and> led_offsets [0, 1, 1, 0, 0, 1, 0] = [2, 5]
   \<and> trials (metadata matching_session) = [long_left_correct, short_right_miss]
   \<and> argsort_int example_numpy [2, 1] = [1, 0]
   \<and> argsort_float example_numpy (map cue_duration (trials (metadata matching_session))) = [1, 0]
   \<and> selected_bitmask (spout long_left_correct) (outcome long_left_correct) = Some correct_left
   \<and> selected_bitmask (spout short_right_miss) (outcome short_right_miss) = Some miss_right
   \<and> (\<exists>labels. extract_action_labels (binarise_at (5 / 2)) example_numpy matching_session
          example_table False = Inr labels
        \<and> length (filter (\<lambda>row. row ! 0 \<noteq> 0) labels) = 2
        \<and> labels ! 0 ! 0 = correct_left \<and> labels ! 4 ! 0 = miss_right)"
proof -
  have t: "trials (metadata matching_session) = [long_left_correct, short_right_miss]"
    by (simp add: matching_session_def)
  have s1: "selected_bitmask (spout long_left_correct) (outcome long_left_correct) = Some correct_left"
    by (simp add: long_left_correct_def)
  have s2: "selected_bitmask (spout short_right_miss) (outcome short_right_miss) = Some miss_right"
    by (simp add: short_right_miss_def)
  have n1: "length (led_onsets [0, 1, 1, 0, 0, 1, 0]) = 2" by (simp add: example_onsets)
  have n2: "length (led_offsets [0, 1, 1, 0, 0, 1, 0]) = 2" by (simp add: example_offsets)
  have n3: "length (trials (metadata matching_session)) = 2" by (simp add: t)
  have r: "argsort_int example_numpy
             (map2 (-) (map int (led_offsets [0, 1, 1, 0, 0, 1, 0]))
                (map int (led_onsets [0, 1, 1, 0, 0, 1, 0])))
           = argsort_float example_numpy (map cue_duration (trials (metadata matching_session)))"
    unfolding example_onsets example_offsets argsort_matching
    using argsort_signal by simp
  have b: "\<forall>t\<in>set (trials (metadata matching_session)).
      selected_bitmask (spout t) (outcome t) \<noteq> None"
    using s1 s2 by (simp add: t)
  from action_labels_at_onsets[where binarise = "binarise_at (5 / 2)",
      OF example_corrected example_trace n1 n2 n3 r b]
  obtain labels where
    l: "extract_action_labels (binarise_at (5 / 2)) example_numpy matching_session example_table
          False = Inr labels"
       "length (filter (\<lambda>row. row ! 0 \<noteq> 0) labels) = 2"
       "\<forall>i<2. selected_bitmask (spout (trials (metadata matching_session) ! i))
                     (outcome (trials (metadata matching_session) ! i))
                   = Some (labels ! (led_onsets [0, 1, 1, 0, 0, 1, 0] ! i) ! 0)"
    by blast
  have "labels ! 0 ! 0 = correct_left"
    using l(3)[rule_format, of 0] s1 by (simp add: t example_onsets)
  moreover have "labels ! 4 ! 0 = miss_right"
    using l(3)[rule_format, of 1] s2 by (simp add: t example_onsets)
  ultimately show ?thesis
    using example_corrected example_trace example_onsets example_offsets t s1 s2 l(1,2)
      argsort_signal argsort_matching
    by simp
qed

subsection \<open>The corruption correction\<close>

lemma series_min_Min: "series_min (x # xs) = Some (Min (set (x # xs)))"
  using Min.set_eq_fold[of x xs] by simp

lemma min_below_Min: "min_below xs b \<longleftrightarrow> xs \<noteq> [] \<and> Min (set xs) < b"
proof (cases xs)
  case Nil
  then show ?thesis by (simp add: min_below_def)
next
  case (Cons y ys)
  show ?thesis unfolding Cons min_below_def series_min_Min by simp
qed

text \<open>
  C4. For a table with the LED and the sync channel: if the minimum of the LED channel
  is below -2, the table handed to binarisation has, as its LED channel, the original
  LED channel plus 0.5 times the sync channel, sample by sample, and is otherwise the
  input; if the minimum is not below -2 (or the table has no sample), the table is
  handed over unchanged. Samples are real numbers here.
\<close>

theorem corruption_correction:
  assumes "columns t ReachLEDs = Some led"
    and "columns t NpxlSync_Signal = Some sync"
  shows "(0 < index_len t \<and> Min (set (values_of t led)) < - 2 \<longrightarrow>
            correct_leds t = Inr (setitem t ReachLEDs (\<lambda>i. led i + 0.5 * sync i))
            \<and> index_len (setitem t ReachLEDs (\<lambda>i. led i + 0.5 * sync i)) = index_len t
            \<and> columns (setitem t ReachLEDs (\<lambda>i. led i + 0.5 * sync i)) ReachLEDs
                = Some (\<lambda>i. led i + 0.5 * sync i))
       \<and> (\<not> (0 < index_len t \<and> Min (set (values_of t led)) < - 2) \<longrightarrow>
            correct_leds t = Inr t)
       \<and> (\<forall>corrected. correct_leds t = Inr corrected \<longrightarrow>
            extract_action_labels binarise np self t plot =
              (case read_cue_leds (binarise corrected) of
                 Inl e \<Rightarrow> Inl e
               | Inr cue_leds \<Rightarrow>
                   label_samples np self (np_zeros (index_len (binarise corrected)) 2) cue_leds plot))"
proof -
  have m: "min_below (values_of t led) (- 2)
      \<longleftrightarrow> 0 < index_len t \<and> Min (set (values_of t led)) < - 2"
    by (simp add: min_below_Min values_of_def)
  have c: "correct_leds t =
      (if 0 < index_len t \<and> Min (set (values_of t led)) < - 2
       then Inr (setitem t ReachLEDs (\<lambda>i. led i + 0.5 * sync i)) else Inr t)"
    using assms m by (simp add: correct_leds_def getitem_def)
  show ?thesis
    by (simp add: c setitem_def extract_action_labels_def)
qed

theorem corruption_correction_witness:
  "columns corrupted_table ReachLEDs = Some (\<lambda>i. [0, 2, 5, - 3, 0, 2, 0] ! i)
   \<and> columns corrupted_table NpxlSync_Signal = Some (\<lambda>i. [0, 6, 0, 6, 0, 6, 0] ! i)
   \<and> Min (set (values_of corrupted_table (\<lambda>i. [0, 2, 5, - 3, 0, 2, 0] ! i))) = - 3
   \<and> correct_leds corrupted_table
       = Inr (setitem corrupted_table ReachLEDs
               (\<lambda>i. [0, 2, 5, - 3, 0, 2, 0] ! i + 0.5 * [0, 6, 0, 6, 0, 6, 0] ! i))
   \<and> map (\<lambda>i. [0, 2, 5, - 3, 0, 2, 0] ! i + 0.5 * [0, 6, 0, 6, 0, 6, 0] ! i) [0..<7]
       = [0, 5, 5, 0, 0, 5, 0 :: real]
   \<and> correct_leds example_table = Inr example_table"
proof -
  have l: "columns corrupted_table ReachLEDs = Some (\<lambda>i. [0, 2, 5, - 3, 0, 2, 0] ! i)"
    by (simp add: corrupted_table_def ReachLEDs_def NpxlSync_Signal_def channel_key_def)
  have s: "columns corrupted_table NpxlSync_Signal = Some (\<lambda>i. [0, 6, 0, 6, 0, 6, 0] ! i)"
    by (simp add: corrupted_table_def)
  have v: "values_of corrupted_table (\<lambda>i. [0, 2, 5, - 3, 0, 2, 0] ! i) = [0, 2, 5, - 3, 0, 2, 0]"
    by (simp add: values_of_def corrupted_table_def upt_rec)
  have mn: "Min (set (values_of corrupted_table (\<lambda>i. [0, 2, 5, - 3, 0, 2, 0] ! i))) = - 3"
    unfolding v by simp
  have n: "0 < index_len corrupted_table" by (simp add: corrupted_table_def)
  have e: "map (\<lambda>i. [0, 2, 5, - 3, 0, 2, 0] ! i + 0.5 * [0, 6, 0, 6, 0, 6, 0] ! i) [0..<7]
       = [0, 5, 5, 0, 0, 5, 0 :: real]"
    by (simp add: upt_rec)
  have l': "columns example_table ReachLEDs = Some (\<lambda>i. [0.1, 4.9, 5, 0, 0.2, 5.1, 0] ! i)"
    by (simp add: example_table_def ReachLEDs_def NpxlSync_Signal_def channel_key_def)
  have s': "columns example_table NpxlSync_Signal = Some (\<lambda>i. [0, 5, 0, 5, 0, 5, 0] ! i)"
    by (simp add: example_table_def)
  have v': "values_of example_table (\<lambda>i. [0.1, 4.9, 5, 0, 0.2, 5.1, 0] ! i)
      = [0.1, 4.9, 5, 0, 0.2, 5.1, 0]"
    by (simp add: values_of_def example_table_def upt_rec)
  have mn': "\<not> Min (set (values_of example_table (\<lambda>i. [0.1, 4.9, 5, 0, 0.2, 5.1, 0] ! i))) < - 2"
    unfolding v' by simp
  from corruption_correction[OF l s] n mn
  have c1: "correct_leds corrupted_table
       = Inr (setitem corrupted_table ReachLEDs
               (\<lambda>i. [0, 2, 5, - 3, 0, 2, 0] ! i + 0.5 * [0, 6, 0, 6, 0, 6, 0] ! i))"
    by simp
  from corruption_correction[OF l' s'] mn'
  have c2: "correct_leds example_table = Inr example_table"
    by simp
  show ?thesis using l s mn c1 e c2 by simp
qed

subsection \<open>The fallback channel\<close>

text \<open>
  C6. The claim is that a table with the LED trace under the back-sensor key only is
  still processed. On such a table the read of lines 73 to 77 does fall back and yields
  the trace, but the whole method raises \<open>KeyError\<close>: line 66 reads the LED key before
  the guarded read, for every \<open>binarise\<close>, session and \<open>plot\<close>.
\<close>

theorem back_sensor_only_raises:
  "columns back_sensor_table ReachLEDs = None
   \<and> read_cue_leds (binarise_at (5 / 2) back_sensor_table) = Inr [0, 1, 1, 0, 0, 1, 0]
   \<and> extract_action_labels binarise np self back_sensor_table plot = Inl KeyError"
proof -
  have a: "columns back_sensor_table ReachLEDs = None"
    by (simp add: back_sensor_table_def ReachLEDs_def NpxlSync_Signal_def Back_Sensor_def
        channel_key_def)
  have b: "read_cue_leds (binarise_at (5 / 2) back_sensor_table) = Inr [0, 1, 1, 0, 0, 1, 0]"
    by (simp add: read_cue_leds_def binarise_at_def back_sensor_table_def getitem_def
        values_of_def upt_rec ReachLEDs_def NpxlSync_Signal_def Back_Sensor_def channel_key_def)
  have c: "correct_leds back_sensor_table = Inl KeyError"
    using a by (simp add: correct_leds_def getitem_def)
  show ?thesis using a b c by (simp add: extract_action_labels_def)
qed

section \<open>Properties of \<open>Experiment\<close>\<close>

lemma append_sessions_Inr:
  "append_sessions cls found acc = Inr ss \<Longrightarrow>
     length ss = length acc + length found
     \<and> (\<forall>i<length acc. ss ! i = acc ! i)
     \<and> (\<forall>i<length found.
           cls (info_name (found ! i)) (info_metadata (found ! i)) (info_data_dir (found ! i))
             = Inr (ss ! (length acc + i)))"
proof (induction found arbitrary: acc)
  case Nil
  then show ?case by simp
next
  case (Cons x found)
  from Cons.prems obtain s where
    s: "cls (info_name x) (info_metadata x) (info_data_dir x) = Inr s"
    and r: "append_sessions cls found (acc @ [s]) = Inr ss"
    by (auto split: sum.splits)
  from Cons.IH[OF r] have
    l: "length ss = length acc + 1 + length found"
    and p: "\<forall>i<length acc + 1. ss ! i = (acc @ [s]) ! i"
    and q: "\<forall>i<length found.
           cls (info_name (found ! i)) (info_metadata (found ! i)) (info_data_dir (found ! i))
             = Inr (ss ! (length acc + 1 + i))"
    by auto
  have p1: "\<forall>i<length acc. ss ! i = acc ! i"
    using p by (auto simp: nth_append)
  have p2: "ss ! length acc = s"
    using p by (auto simp: nth_append)
  have "cls (info_name ((x # found) ! i)) (info_metadata ((x # found) ! i))
          (info_data_dir ((x # found) ! i)) = Inr (ss ! (length acc + i))"
    if "i < length (x # found)" for i
    using that s p2 q by (cases i) auto
  then show ?case using l p1 by simp
qed

lemma Experiment_init_Inr:
  assumes "Experiment_init fs get_sessions ids cls d m = Inr e"
  shows "\<exists>md found ss. exists fs (expanduser fs d) \<and> check_meta_dir fs m = Inr md
     \<and> get_sessions (as_list ids) (expanduser fs d) md = Inr found
     \<and> append_sessions cls found [] = Inr ss
     \<and> mouse_ids e = as_list ids \<and> data_dir e = expanduser fs d \<and> meta_dir e = md
     \<and> sessions e = ss"
  using assms
  by (auto simp: Experiment_init_def split: if_splits sum.splits)

text \<open>
  C7. For every constructed \<open>Experiment\<close>, \<open>len\<close> is the number of sessions that
  discovery yielded, and for every index \<open>i\<close> with \<open>0 \<le> i < len\<close>, \<open>experiment[i]\<close>
  returns the session object built from the \<open>i\<close>-th discovered session.
\<close>

theorem len_and_getitem:
  assumes "Experiment_init fs get_sessions ids cls d m = Inr e"
  shows "\<exists>found. get_sessions (mouse_ids e) (data_dir e) (meta_dir e) = Inr found
     \<and> Experiment_len e = length found
     \<and> (\<forall>i. 0 \<le> i \<and> i < int (Experiment_len e) \<longrightarrow>
           Experiment_getitem e i = Inr (sessions e ! nat i)
           \<and> cls (info_name (found ! nat i)) (info_metadata (found ! nat i))
                (info_data_dir (found ! nat i)) = Inr (sessions e ! nat i))"
proof -
  from Experiment_init_Inr[OF assms] obtain found where
    g: "get_sessions (mouse_ids e) (data_dir e) (meta_dir e) = Inr found"
    and a: "append_sessions cls found [] = Inr (sessions e)"
    by auto
  from append_sessions_Inr[OF a] have
    l: "length (sessions e) = length found"
    and c: "\<forall>i<length found.
           cls (info_name (found ! i)) (info_metadata (found ! i)) (info_data_dir (found ! i))
             = Inr (sessions e ! i)"
    by auto
  have "Experiment_getitem e i = Inr (sessions e ! nat i)
        \<and> cls (info_name (found ! nat i)) (info_metadata (found ! nat i))
                (info_data_dir (found ! nat i)) = Inr (sessions e ! nat i)"
    if "0 \<le> i" "i < int (Experiment_len e)" for i
  proof -
    have "nat i < length found" using that l by (simp add: Experiment_len_def)
    then show ?thesis using that c by (simp add: Experiment_getitem_def Experiment_len_def)
  qed
  then show ?thesis using g l by (auto simp: Experiment_len_def)
qed

lemma example_init:
  "Experiment_init example_fs example_get_sessions (One ''m1'') example_behaviour
      ''/data'' (Some ''/meta'') = Inr example_experiment"
  by (simp add: Experiment_init_def example_fs_def check_meta_dir_def example_get_sessions_def
      example_behaviour_def example_experiment_def)

theorem len_and_getitem_witness:
  "Experiment_init example_fs example_get_sessions (One ''m1'') example_behaviour
      ''/data'' (Some ''/meta'') = Inr example_experiment
   \<and> example_get_sessions [''m1''] ''/data'' (Some ''/meta'')
       = Inr [\<lparr>info_name = ''a'', info_metadata = 1, info_data_dir = ''/data''\<rparr>,
              \<lparr>info_name = ''b'', info_metadata = 2, info_data_dir = ''/data''\<rparr>]
   \<and> Experiment_len example_experiment = 2
   \<and> Experiment_getitem example_experiment 0 = Inr (''a'', 1, ''/data'')
   \<and> Experiment_getitem example_experiment 1 = Inr (''b'', 2, ''/data'')
   \<and> example_behaviour ''b'' 2 ''/data'' = Inr (''b'', 2, ''/data'')"
proof -
  let ?e = example_experiment
  from len_and_getitem[OF example_init] obtain found where
    f: "example_get_sessions (mouse_ids ?e) (data_dir ?e) (meta_dir ?e) = Inr found"
    "Experiment_len ?e = length found"
    "\<forall>i. 0 \<le> i \<and> i < int (Experiment_len ?e) \<longrightarrow>
           Experiment_getitem ?e i = Inr (sessions ?e ! nat i)
           \<and> example_behaviour (info_name (found ! nat i)) (info_metadata (found ! nat i))
                (info_data_dir (found ! nat i)) = Inr (sessions ?e ! nat i)"
    by blast
  have fd: "found = [\<lparr>info_name = ''a'', info_metadata = 1, info_data_dir = ''/data''\<rparr>,
         \<lparr>info_name = ''b'', info_metadata = 2, info_data_dir = ''/data''\<rparr>]"
    using f(1) by (simp add: example_get_sessions_def example_experiment_def)
  have n: "Experiment_len ?e = 2" using f(2) fd by simp
  have g0: "Experiment_getitem ?e 0 = Inr (''a'', 1, ''/data'')"
    using f(3)[rule_format, of 0] n by (simp add: example_experiment_def)
  have g1: "Experiment_getitem ?e 1 = Inr (''b'', 2, ''/data'')
        \<and> example_behaviour ''b'' 2 ''/data'' = Inr (''b'', 2, ''/data'')"
    using f(3)[rule_format, of 1] n fd by (simp add: example_experiment_def)
  show ?thesis using example_init n g0 g1 by (simp add: example_get_sessions_def)
qed


text \<open>
  C9. Construction raises \<open>PixelsError\<close> when \<open>data_dir\<close> does not exist, and, when a
  \<open>meta_dir\<close> is given (a non-empty string), when that \<open>meta_dir\<close> does not exist.
  Otherwise, when discovery and the session class return, construction succeeds and
  records both paths: the expanded \<open>data_dir\<close>, and the expanded \<open>meta_dir\<close> or \<open>None\<close>
  when none was given.
\<close>

theorem init_directory_checks:
  "(\<not> exists fs (expanduser fs d) \<longrightarrow>
      Experiment_init fs get_sessions ids cls d m
        = Inl (PixelsError (''Directory not found: '' @ d)))
   \<and> (exists fs (expanduser fs d) \<and> m = Some md \<and> md \<noteq> []
        \<and> \<not> exists fs (expanduser fs md) \<longrightarrow>
      Experiment_init fs get_sessions ids cls d m
        = Inl (PixelsError (''Directory not found: '' @ md)))
   \<and> (exists fs (expanduser fs d) \<and> m = Some md \<and> md \<noteq> []
        \<and> exists fs (expanduser fs md)
        \<and> get_sessions (as_list ids) (expanduser fs d) (Some (expanduser fs md)) = Inr found
        \<and> append_sessions cls found [] = Inr ss \<longrightarrow>
      (\<exists>e. Experiment_init fs get_sessions ids cls d m = Inr e
         \<and> data_dir e = expanduser fs d \<and> meta_dir e = Some (expanduser fs md)
         \<and> sessions e = ss))
   \<and> (exists fs (expanduser fs d) \<and> (m = None \<or> m = Some [])
        \<and> get_sessions (as_list ids) (expanduser fs d) None = Inr found
        \<and> append_sessions cls found [] = Inr ss \<longrightarrow>
      (\<exists>e. Experiment_init fs get_sessions ids cls d m = Inr e
         \<and> data_dir e = expanduser fs d \<and> meta_dir e = None
         \<and> sessions e = ss))"
proof -
  have missing_data: "Experiment_init fs get_sessions ids cls d m
      = Inl (PixelsError (''Directory not found: '' @ d))"
    if "\<not> exists fs (expanduser fs d)"
    using that by (simp add: Experiment_init_def)
  have missing_meta: "Experiment_init fs get_sessions ids cls d m
      = Inl (PixelsError (''Directory not found: '' @ md))"
    if "exists fs (expanduser fs d)" "m = Some md" "md \<noteq> []"
      "\<not> exists fs (expanduser fs md)"
  proof -
    have "check_meta_dir fs m = Inl (PixelsError (''Directory not found: '' @ md))"
      using that by (simp add: check_meta_dir_def)
    then show ?thesis using that(1) by (simp add: Experiment_init_def)
  qed
  have built: "\<exists>e. Experiment_init fs get_sessions ids cls d m = Inr e
         \<and> data_dir e = expanduser fs d \<and> meta_dir e = recorded \<and> sessions e = ss"
    if "exists fs (expanduser fs d)" "check_meta_dir fs m = Inr recorded"
      "get_sessions (as_list ids) (expanduser fs d) recorded = Inr found"
      "append_sessions cls found [] = Inr ss" for recorded
    using that by (simp add: Experiment_init_def)
  have given: "check_meta_dir fs m = Inr (Some (expanduser fs md))"
    if "m = Some md" "md \<noteq> []" "exists fs (expanduser fs md)"
    using that by (simp add: check_meta_dir_def)
  have not_given: "check_meta_dir fs m = Inr None" if "m = None \<or> m = Some []"
    using that by (auto simp: check_meta_dir_def)
  show ?thesis
    using missing_data missing_meta built[OF _ given] built[OF _ not_given] by blast
qed

theorem init_directory_checks_witness:
  "Experiment_init example_fs example_get_sessions (One ''m1'') example_behaviour
      ''/nodata'' (Some ''/meta'')
     = Inl (PixelsError ''Directory not found: /nodata'')
   \<and> Experiment_init example_fs example_get_sessions (One ''m1'') example_behaviour
      ''/data'' (Some ''/nometa'')
     = Inl (PixelsError ''Directory not found: /nometa'')
   \<and> (\<exists>e. Experiment_init example_fs example_get_sessions (One ''m1'') example_behaviour
          ''/data'' (Some ''/meta'') = Inr e
        \<and> data_dir e = ''/data'' \<and> meta_dir e = Some ''/meta''
        \<and> sessions e = [(''a'', 1, ''/data''), (''b'', 2, ''/data'')])
   \<and> (\<exists>e. Experiment_init example_fs example_get_sessions (One ''m1'') example_behaviour
          ''/data'' None = Inr e
        \<and> data_dir e = ''/data'' \<and> meta_dir e = None
        \<and> sessions e = [(''a'', 1, ''/data''), (''b'', 2, ''/data'')])"
proof -
  let ?found = "[\<lparr>info_name = ''a'', info_metadata = 1 :: nat, info_data_dir = ''/data''\<rparr>,
              \<lparr>info_name = ''b'', info_metadata = 2, info_data_dir = ''/data''\<rparr>]"
  let ?ss = "[(''a'', 1 :: nat, ''/data''), (''b'', 2, ''/data'')]"
  have x: "exists example_fs (expanduser example_fs ''/data'')"
    "exists example_fs (expanduser example_fs ''/meta'')"
    "\<not> exists example_fs (expanduser example_fs ''/nodata'')"
    "\<not> exists example_fs (expanduser example_fs ''/nometa'')"
    "expanduser example_fs ''/data'' = ''/data''"
    "expanduser example_fs ''/meta'' = ''/meta''"
    by (simp_all add: example_fs_def)
  have g: "example_get_sessions (as_list (One ''m1'')) (expanduser example_fs ''/data'') mm
      = Inr ?found" for mm
    by (simp add: example_get_sessions_def example_fs_def)
  have a: "append_sessions example_behaviour ?found [] = Inr ?ss"
    by (simp add: example_behaviour_def)
  note t1 = init_directory_checks[of example_fs "''/nodata''" example_get_sessions
      "One ''m1''" example_behaviour "Some ''/meta''" "''/meta''" ?found ?ss]
  note t2 = init_directory_checks[of example_fs "''/data''" example_get_sessions
      "One ''m1''" example_behaviour "Some ''/nometa''" "''/nometa''" ?found ?ss]
  note t3 = init_directory_checks[of example_fs "''/data''" example_get_sessions
      "One ''m1''" example_behaviour "Some ''/meta''" "''/meta''" ?found ?ss]
  note t4 = init_directory_checks[of example_fs "''/data''" example_get_sessions
      "One ''m1''" example_behaviour None "''/meta''" ?found ?ss]
  have c1: "Experiment_init example_fs example_get_sessions (One ''m1'') example_behaviour
      ''/nodata'' (Some ''/meta'') = Inl (PixelsError ''Directory not found: /nodata'')"
    using t1 x by simp
  have c2: "Experiment_init example_fs example_get_sessions (One ''m1'') example_behaviour
      ''/data'' (Some ''/nometa'') = Inl (PixelsError ''Directory not found: /nometa'')"
    using t2 x by simp
  have c3: "\<exists>e. Experiment_init example_fs example_get_sessions (One ''m1'') example_behaviour
          ''/data'' (Some ''/meta'') = Inr e
        \<and> data_dir e = ''/data'' \<and> meta_dir e = Some ''/meta''
        \<and> sessions e = ?ss"
    using t3 x g a by simp
  have c4: "\<exists>e. Experiment_init example_fs example_get_sessions (One ''m1'') example_behaviour
          ''/data'' None = Inr e
        \<and> data_dir e = ''/data'' \<and> meta_dir e = None
        \<and> sessions e = ?ss"
    using t4 x g a by simp
  from c1 c2 c3 c4 show ?thesis by blast
qed

subsection \<open>Batch methods\<close>

text \<open>
  \<open>align_trials\<close> on at least one session, when every call of the session method
  returns: the tables in session order, each under its position.
\<close>

lemma collect_trials_Inr:
  "\<forall>k<length ss. call_session m args units (i + k) (ss ! k) = Inr (dfs ! k) \<Longrightarrow>
   length dfs = length ss \<Longrightarrow>
   collect_trials m args units i ss acc = Inr (acc @ dfs)"
proof (induction ss arbitrary: i acc dfs)
  case Nil
  then show ?case by simp
next
  case (Cons s ss)
  from Cons.prems(2) obtain df rest where d: "dfs = df # rest" "length rest = length ss"
    by (cases dfs) auto
  have h: "call_session m args units i s = Inr df"
    using Cons.prems(1)[rule_format, of 0] d by simp
  have "\<forall>k<length ss. call_session m args units (Suc i + k) (ss ! k) = Inr (rest ! k)"
  proof (intro allI impI)
    fix k assume "k < length ss"
    then show "call_session m args units (Suc i + k) (ss ! k) = Inr (rest ! k)"
      using Cons.prems(1)[rule_format, of "Suc k"] d by simp
  qed
  from Cons.IH[OF this d(2), of "acc @ [df]"] h d show ?case by simp
qed

lemma align_trials_concat:
  assumes "sessions self \<noteq> []"
    and "length dfs = length (sessions self)"
    and "\<forall>k<length (sessions self). call_session m args units k (sessions self ! k) = Inr (dfs ! k)"
  shows "align_trials m self args units = Inr (zip [0..<length (sessions self)] dfs)"
proof -
  have "collect_trials m args units 0 (sessions self) [] = Inr ([] @ dfs)"
    by (rule collect_trials_Inr) (use assms in simp_all)
  then show ?thesis using assms(1,2) by (auto simp: align_trials_def pd_concat_def)
qed

text \<open>
  C5. The claim is that \<open>align_trials\<close>, \<open>get_spike_widths\<close>, \<open>get_spike_waveforms\<close> and
  \<open>get_aligned_spike_rate_CI\<close> return the per-session tables concatenated under the
  session positions, for any number of sessions. In the code the last three raise
  \<open>AttributeError\<close> on every experiment, and \<open>align_trials\<close> raises \<open>ValueError\<close> on an
  experiment without sessions.
\<close>

theorem spike_methods_raise:
  "get_spike_widths m1 self units = Inl AttributeError
   \<and> get_spike_waveforms m2 self units = Inl AttributeError
   \<and> get_aligned_spike_rate_CI m3 self args units = Inl AttributeError
   \<and> align_trials m4 (self\<lparr>sessions := []\<rparr>) args' units' = Inl ValueError"
  by (simp add: get_spike_widths_def get_spike_waveforms_def get_aligned_spike_rate_CI_def
      getattr_session_list_def align_trials_def pd_concat_def)

end
